theory Spec2Isabelle
  imports Main "HOL-Library.Char_ord" "HOL-Library.List_Lexorder"
begin

section \<open>Errors\<close>

text \<open>
  Every exception the reconciler can raise is a value.  A function that may raise returns
  \<open>error + 'a\<close>, with \<open>Inl\<close> for the exception.
\<close>

datatype error =
    CircularDependency
  | KeyError
  | IndexError
  | ValueError
  | AttributeError
  | DoesNotExist
  | MultipleObjectsReturned
  | DatabaseError
  | UnboundLocalError

section \<open>Topological sorting\<close>

text \<open>
  Modelled from the spec: \<open>sorttop\<close> and \<open>flatten\<close> of \<open>provisioningserver.utils\<close> are
  imported by \<open>network.py\<close> but are not among the sources.  The spec (4.5, step 1) asks for
  a topological sort by the parent relation, "children strictly after all parents", and
  calls the relation acyclic; the caller shows the shape of the result: a sequence of
  batches, each of which it sorts by name before flattening the lot.  A dict is an
  association list with distinct keys.  A batch holds the things none of whose dependencies
  is still waiting; a dependency on oneself is dropped; a dependency that is not a key of
  the dict is a thing of its own without dependencies, so that it does come strictly before
  its dependants; when things are left and none is ready the dependencies are circular.
\<close>

definition ready :: "('a \<times> 'a list) list \<Rightarrow> 'a list" where
  "ready data = map fst (filter (\<lambda>(thing, deps). deps = []) data)"

definition strike :: "'a list \<Rightarrow> ('a \<times> 'a list) list \<Rightarrow> ('a \<times> 'a list) list" where
  "strike batch data =
     map (\<lambda>(thing, deps). (thing, filter (\<lambda>d. d \<notin> set batch) deps))
         (filter (\<lambda>(thing, deps). thing \<notin> set batch) data)"

function skim :: "('a \<times> 'a list) list \<Rightarrow> error + 'a list list" where
  "skim data =
     (if data = [] then Inr []
      else if ready data = [] then Inl CircularDependency
      else (case skim (strike (ready data) data) of
              Inl e \<Rightarrow> Inl e
            | Inr batches \<Rightarrow> Inr (ready data # batches)))"
  by pat_completeness auto
termination
proof (relation "measure length")
  show "wf (measure length)" by simp
next
  fix data :: "('a \<times> 'a list) list"
  assume "data \<noteq> []" and "ready data \<noteq> []"
  then obtain t where t: "t \<in> set (ready data)" by (cases "ready data") auto
  then obtain deps where m: "(t, deps) \<in> set data" by (auto simp: ready_def)
  have "length (filter (\<lambda>(thing, deps). thing \<notin> set (ready data)) data) < length data"
    by (rule length_filter_less [OF m]) (use t in simp)
  then show "(strike (ready data) data, data) \<in> measure length"
    by (simp add: strike_def)
qed

declare skim.simps [simp del]

definition sorttop :: "('a \<times> 'a list) list \<Rightarrow> error + 'a list list" where
  "sorttop data0 =
     (let data = map (\<lambda>(thing, deps). (thing, filter (\<lambda>d. d \<noteq> thing) deps)) data0;
          ghosts = filter (\<lambda>d. d \<notin> set (map fst data)) (remdups (concat (map snd data)))
      in skim (data @ map (\<lambda>ghost. (ghost, [])) ghosts))"

definition flatten :: "'a list list \<Rightarrow> 'a list" where
  "flatten things = concat things"

text \<open>\<open>[sorted(list(items)) for items in batches]\<close>: a batch is a set, so it is listed
  without repetition and in ascending order.\<close>

definition sorted_batches :: "('a::linorder) list list \<Rightarrow> 'a list list" where
  "sorted_batches batches = map (\<lambda>items. sort (remdups items)) batches"

section \<open>Addresses and networks\<close>

text \<open>
  The \<open>netaddr\<close> values the reconciler handles.  An address is its IP version and its
  numeric value; a network (\<open>IPNetwork("10.0.5.7/24")\<close>) adds the prefix length.  The
  strings the code stores (\<open>str(ip_network.ip)\<close>, \<open>str(ip_network.cidr)\<close>) are the
  canonical texts of these values, so equal strings are equal values.
\<close>

type_synonym ipaddress = "nat \<times> nat"

record ipnetwork =
  ipn_version :: nat
  ipn_value :: nat
  ipn_prefixlen :: nat

definition host_bits :: "ipnetwork \<Rightarrow> nat" where
  "host_bits n = (if ipn_version n = 4 then 32 else 128) - ipn_prefixlen n"

definition network_ip :: "ipnetwork \<Rightarrow> ipaddress" where
  "network_ip n = (ipn_version n, ipn_value n)"

definition network_cidr :: "ipnetwork \<Rightarrow> ipnetwork" where
  "network_cidr n = n\<lparr>ipn_value := (ipn_value n div 2 ^ host_bits n) * 2 ^ host_bits n\<rparr>"

definition ip_in_network :: "ipaddress \<Rightarrow> ipnetwork \<Rightarrow> bool" where
  "ip_in_network a n =
     (fst a = ipn_version n \<and> snd a div 2 ^ host_bits n = ipn_value n div 2 ^ host_bits n)"

section \<open>The model store\<close>

text \<open>
  The rows the reconciler reads and writes, with the columns its decisions depend on.
  Foreign keys are ids.  The parents of an interface and the addresses linked to it are
  rows of two relation tables, as in the database.  Rows are appended with fresh ids, so
  each table is listed in primary-key order and \<open>.first()\<close> is the head of the filtered
  table.  The last field is no table: \<open>st_set_order\<close> is the order in which the
  interpreter iterates a set of rows (see \<open>iteration_order\<close>); nothing writes it.
\<close>

datatype interface_type = PHYSICAL | BOND | BRIDGE | VLAN

datatype ipaddress_type = STICKY | DHCP | DISCOVERED

record interface =
  if_id :: nat
  if_type :: interface_type
  if_node :: nat
  if_name :: string
  if_mac_address :: string
  if_enabled :: bool
  if_acquired :: bool
  if_vlan :: "nat option"

record vlan =
  vlan_id :: nat
  vlan_vid :: nat
  vlan_fabric :: nat

record subnet =
  subnet_id :: nat
  subnet_cidr :: ipnetwork
  subnet_vlan :: nat
  subnet_gateway_ip :: "ipaddress option"

record staticipaddress =
  sip_id :: nat
  sip_alloc_type :: ipaddress_type
  sip_ip :: "ipaddress option"
  sip_subnet :: "nat option"

record node =
  node_id :: nat
  node_hostname :: string
  node_boot_interface_id :: "nat option"

datatype table = InterfaceRow | FabricRow | VLANRow | SubnetRow | StaticIPAddressRow | NodeRow

text \<open>Every statement that changes the database is entered in a journal.\<close>

datatype write_op =
    Created table nat
  | Saved table nat
  | Deleted table nat
  | Linked nat nat
  | Unlinked nat nat
  | ParentAdded nat nat

datatype log_entry =
    NotOnSameFabric string string
  | ReportsOtherVLAN string nat nat
  | SubnetNotOnVLAN ipaddress string nat

record store =
  st_interfaces :: "interface list"
  st_relationships :: "(nat \<times> nat) list"
  st_fabrics :: "nat list"
  st_vlans :: "vlan list"
  st_subnets :: "subnet list"
  st_addresses :: "staticipaddress list"
  st_links :: "(nat \<times> nat) list"
  st_next_id :: nat
  st_journal :: "write_op list"
  st_maaslog :: "log_entry list"
  st_set_order :: "(nat list \<times> nat list) list"

definition record_write :: "write_op \<Rightarrow> store \<Rightarrow> store" where
  "record_write w s = s\<lparr>st_journal := st_journal s @ [w]\<rparr>"

definition maaslog_error :: "log_entry \<Rightarrow> store \<Rightarrow> store" where
  "maaslog_error e s = s\<lparr>st_maaslog := st_maaslog s @ [e]\<rparr>"

definition fresh_id :: "store \<Rightarrow> nat \<times> store" where
  "fresh_id s = (st_next_id s, s\<lparr>st_next_id := Suc (st_next_id s)\<rparr>)"

text \<open>\<open>queryset.first()\<close> and \<open>Model.objects.get(...)\<close> on the rows a filter selects.\<close>

definition first :: "'a list \<Rightarrow> 'a option" where
  "first rows = (case rows of [] \<Rightarrow> None | r # _ \<Rightarrow> Some r)"

definition get_one :: "'a list \<Rightarrow> error + 'a" where
  "get_one rows =
     (case rows of [] \<Rightarrow> Inl DoesNotExist
      | [r] \<Rightarrow> Inr r
      | _ \<Rightarrow> Inl MultipleObjectsReturned)"

subsection \<open>Interfaces\<close>

definition create_interface :: "interface \<Rightarrow> store \<Rightarrow> interface \<times> store" where
  "create_interface defaults s =
     (let (i, s1) = fresh_id s;
          row = defaults\<lparr>if_id := i\<rparr>
      in (row, record_write (Created InterfaceRow i)
                 (s1\<lparr>st_interfaces := st_interfaces s1 @ [row]\<rparr>)))"

text \<open>\<open>interface.save()\<close> writes every column of the object; a row that is gone is
  inserted again.\<close>

definition save_interface :: "interface \<Rightarrow> store \<Rightarrow> store" where
  "save_interface obj s =
     (if if_id obj \<in> set (map if_id (st_interfaces s))
      then record_write (Saved InterfaceRow (if_id obj))
             (s\<lparr>st_interfaces :=
                  map (\<lambda>row. if if_id row = if_id obj then obj else row) (st_interfaces s)\<rparr>)
      else record_write (Created InterfaceRow (if_id obj))
             (s\<lparr>st_interfaces := st_interfaces s @ [obj]\<rparr>))"

datatype field = F_vlan | F_node | F_name | F_enabled

definition copy_fields :: "field list \<Rightarrow> interface \<Rightarrow> interface \<Rightarrow> interface" where
  "copy_fields update_fields obj row =
     row\<lparr>if_vlan := (if F_vlan \<in> set update_fields then if_vlan obj else if_vlan row),
         if_node := (if F_node \<in> set update_fields then if_node obj else if_node row),
         if_name := (if F_name \<in> set update_fields then if_name obj else if_name row),
         if_enabled := (if F_enabled \<in> set update_fields then if_enabled obj else if_enabled row)\<rparr>"

text \<open>\<open>interface.save(update_fields=...)\<close> writes the named columns only, and fails when
  no row has the object's id.\<close>

definition save_interface_fields :: "field list \<Rightarrow> interface \<Rightarrow> store \<Rightarrow> error + store" where
  "save_interface_fields update_fields obj s =
     (if if_id obj \<in> set (map if_id (st_interfaces s))
      then Inr (record_write (Saved InterfaceRow (if_id obj))
             (s\<lparr>st_interfaces :=
                  map (\<lambda>row. if if_id row = if_id obj then copy_fields update_fields obj row else row)
                      (st_interfaces s)\<rparr>))
      else Inl DatabaseError)"

text \<open>Deleting an interface takes its rows of the two relation tables with it.  Deleting
  an object whose row is gone already changes nothing.\<close>

definition delete_interface :: "nat \<Rightarrow> store \<Rightarrow> store" where
  "delete_interface i s =
     (if i \<in> set (map if_id (st_interfaces s))
      then record_write (Deleted InterfaceRow i)
             (s\<lparr>st_interfaces := filter (\<lambda>row. if_id row \<noteq> i) (st_interfaces s),
                st_relationships := filter (\<lambda>(c, p). c \<noteq> i \<and> p \<noteq> i) (st_relationships s),
                st_links := filter (\<lambda>(n, a). n \<noteq> i) (st_links s)\<rparr>)
      else s)"

definition delete_interfaces :: "nat list \<Rightarrow> store \<Rightarrow> store" where
  "delete_interfaces ids s = fold delete_interface ids s"

definition parents_of :: "store \<Rightarrow> nat \<Rightarrow> nat list" where
  "parents_of s i = map snd (filter (\<lambda>(c, p). c = i) (st_relationships s))"

definition add_parent :: "nat \<Rightarrow> nat \<Rightarrow> store \<Rightarrow> store" where
  "add_parent child parent s =
     record_write (ParentAdded child parent)
       (s\<lparr>st_relationships := st_relationships s @ [(child, parent)]\<rparr>)"

subsection \<open>Addresses and their links\<close>

definition ip_addresses_of :: "store \<Rightarrow> nat \<Rightarrow> staticipaddress list" where
  "ip_addresses_of s i = filter (\<lambda>a. (i, sip_id a) \<in> set (st_links s)) (st_addresses s)"

definition interface_set_of :: "store \<Rightarrow> nat \<Rightarrow> interface list" where
  "interface_set_of s a = filter (\<lambda>n. (if_id n, a) \<in> set (st_links s)) (st_interfaces s)"

definition create_address :: "ipaddress_type \<Rightarrow> ipaddress option \<Rightarrow> nat option \<Rightarrow> store
    \<Rightarrow> staticipaddress \<times> store" where
  "create_address alloc ip sn s =
     (let (i, s1) = fresh_id s;
          row = \<lparr>sip_id = i, sip_alloc_type = alloc, sip_ip = ip, sip_subnet = sn\<rparr>
      in (row, record_write (Created StaticIPAddressRow i)
                 (s1\<lparr>st_addresses := st_addresses s1 @ [row]\<rparr>)))"

definition save_address :: "staticipaddress \<Rightarrow> store \<Rightarrow> store" where
  "save_address obj s =
     (if sip_id obj \<in> set (map sip_id (st_addresses s))
      then record_write (Saved StaticIPAddressRow (sip_id obj))
             (s\<lparr>st_addresses :=
                  map (\<lambda>row. if sip_id row = sip_id obj then obj else row) (st_addresses s)\<rparr>)
      else record_write (Created StaticIPAddressRow (sip_id obj))
             (s\<lparr>st_addresses := st_addresses s @ [obj]\<rparr>))"

definition delete_address :: "nat \<Rightarrow> store \<Rightarrow> store" where
  "delete_address a s =
     (if a \<in> set (map sip_id (st_addresses s))
      then record_write (Deleted StaticIPAddressRow a)
             (s\<lparr>st_addresses := filter (\<lambda>row. sip_id row \<noteq> a) (st_addresses s),
                st_links := filter (\<lambda>(n, b). b \<noteq> a) (st_links s)\<rparr>)
      else s)"

definition delete_addresses :: "nat list \<Rightarrow> store \<Rightarrow> store" where
  "delete_addresses ids s = fold delete_address ids s"

text \<open>\<open>interface.ip_addresses.add(address)\<close> inserts the link unless it is there.\<close>

definition link_add :: "nat \<Rightarrow> nat \<Rightarrow> store \<Rightarrow> store" where
  "link_add i a s =
     (if (i, a) \<in> set (st_links s) then s
      else record_write (Linked i a) (s\<lparr>st_links := st_links s @ [(i, a)]\<rparr>))"

definition link_remove :: "nat \<Rightarrow> nat \<Rightarrow> store \<Rightarrow> store" where
  "link_remove i a s =
     (if (i, a) \<in> set (st_links s)
      then record_write (Unlinked i a) (s\<lparr>st_links := filter (\<lambda>l. l \<noteq> (i, a)) (st_links s)\<rparr>)
      else s)"

text \<open>
  Modelled from the spec: \<open>Interface.unlink_ip_address\<close> is a method of the interface
  model, which is not among the sources.  The spec (4.5, step 3): "Any previously-linked
  address not re-declared by this pass is unlinked from the interface."
\<close>

definition unlink_ip_address :: "nat \<Rightarrow> staticipaddress \<Rightarrow> store \<Rightarrow> store" where
  "unlink_ip_address i address s = link_remove i (sip_id address) s"

subsection \<open>Fabrics, VLANs and subnets\<close>

text \<open>
  Modelled from the spec: the fabric and VLAN models are not among the sources.  The spec
  (3): "a Fabric always has a default VLAN", so creating a fabric creates its default VLAN,
  the untagged one; the default fabric is the fabric with id 0 and exists from the first
  time it is asked for.  Deleting a fabric deletes its VLANs.
\<close>

definition create_vlan :: "nat \<Rightarrow> nat \<Rightarrow> store \<Rightarrow> vlan \<times> store" where
  "create_vlan fabric vid s =
     (let (i, s1) = fresh_id s;
          row = \<lparr>vlan_id = i, vlan_vid = vid, vlan_fabric = fabric\<rparr>
      in (row, record_write (Created VLANRow i) (s1\<lparr>st_vlans := st_vlans s1 @ [row]\<rparr>)))"

definition fabric_default_vlan :: "store \<Rightarrow> nat \<Rightarrow> vlan option" where
  "fabric_default_vlan s fabric = first (filter (\<lambda>v. vlan_fabric v = fabric) (st_vlans s))"

definition create_fabric :: "store \<Rightarrow> vlan \<times> store" where
  "create_fabric s =
     (let (f, s1) = fresh_id s;
          s2 = record_write (Created FabricRow f) (s1\<lparr>st_fabrics := st_fabrics s1 @ [f]\<rparr>)
      in create_vlan f 0 s2)"

definition get_default_vlan :: "store \<Rightarrow> vlan \<times> store" where
  "get_default_vlan s =
     (case (if 0 \<in> set (st_fabrics s) then fabric_default_vlan s 0 else None) of
        Some v \<Rightarrow> (v, s)
      | None \<Rightarrow>
          create_vlan 0 0
            (if 0 \<in> set (st_fabrics s) then s
             else record_write (Created FabricRow 0) (s\<lparr>st_fabrics := st_fabrics s @ [0]\<rparr>)))"

definition delete_fabric :: "nat \<Rightarrow> store \<Rightarrow> store" where
  "delete_fabric f s =
     (if f \<in> set (st_fabrics s)
      then record_write (Deleted FabricRow f)
             (s\<lparr>st_fabrics := filter (\<lambda>g. g \<noteq> f) (st_fabrics s),
                st_vlans := filter (\<lambda>v. vlan_fabric v \<noteq> f) (st_vlans s)\<rparr>)
      else s)"

definition find_vlan :: "store \<Rightarrow> nat \<Rightarrow> vlan option" where
  "find_vlan s i = first (filter (\<lambda>v. vlan_id v = i) (st_vlans s))"

definition find_subnet :: "store \<Rightarrow> nat \<Rightarrow> subnet option" where
  "find_subnet s i = first (filter (\<lambda>n. subnet_id n = i) (st_subnets s))"

text \<open>\<open>VLAN.objects.get_or_create(fabric=..., vid=...)\<close>\<close>

definition vlan_get_or_create :: "nat \<Rightarrow> nat \<Rightarrow> store \<Rightarrow> error + vlan \<times> store" where
  "vlan_get_or_create fabric vid s =
     (case filter (\<lambda>v. vlan_fabric v = fabric \<and> vlan_vid v = vid) (st_vlans s) of
        [] \<Rightarrow> Inr (create_vlan fabric vid s)
      | [v] \<Rightarrow> Inr (v, s)
      | _ \<Rightarrow> Inl MultipleObjectsReturned)"

text \<open>\<open>Subnet.objects.get_or_create(cidr=..., defaults={"name": ..., "vlan": vlan})\<close>\<close>

definition subnet_get_or_create :: "ipnetwork \<Rightarrow> nat \<Rightarrow> store \<Rightarrow> error + subnet \<times> store" where
  "subnet_get_or_create cidr v s =
     (case filter (\<lambda>n. subnet_cidr n = cidr) (st_subnets s) of
        [] \<Rightarrow>
          (let (i, s1) = fresh_id s;
               row = \<lparr>subnet_id = i, subnet_cidr = cidr, subnet_vlan = v,
                      subnet_gateway_ip = None\<rparr>
           in Inr (row, record_write (Created SubnetRow i)
                          (s1\<lparr>st_subnets := st_subnets s1 @ [row]\<rparr>)))
      | [n] \<Rightarrow> Inr (n, s)
      | _ \<Rightarrow> Inl MultipleObjectsReturned)"

definition save_subnet :: "subnet \<Rightarrow> store \<Rightarrow> store" where
  "save_subnet obj s =
     record_write (Saved SubnetRow (subnet_id obj))
       (s\<lparr>st_subnets :=
            map (\<lambda>row. if subnet_id row = subnet_id obj then obj else row) (st_subnets s)\<rparr>)"

text \<open>\<open>StaticIPAddress.objects.get_or_create(ip=..., defaults=...)\<close> and
  \<open>update_or_create\<close>, with the allocation type and the subnet as defaults.\<close>

definition address_get_or_create :: "ipaddress \<Rightarrow> ipaddress_type \<Rightarrow> nat \<Rightarrow> store
    \<Rightarrow> error + staticipaddress \<times> bool \<times> store" where
  "address_get_or_create ip alloc sn s =
     (case filter (\<lambda>a. sip_ip a = Some ip) (st_addresses s) of
        [] \<Rightarrow> (let (a, s1) = create_address alloc (Some ip) (Some sn) s in Inr (a, True, s1))
      | [a] \<Rightarrow> Inr (a, False, s)
      | _ \<Rightarrow> Inl MultipleObjectsReturned)"

definition address_update_or_create :: "ipaddress \<Rightarrow> ipaddress_type \<Rightarrow> nat \<Rightarrow> store
    \<Rightarrow> error + staticipaddress \<times> store" where
  "address_update_or_create ip alloc sn s =
     (case filter (\<lambda>a. sip_ip a = Some ip) (st_addresses s) of
        [] \<Rightarrow> Inr (create_address alloc (Some ip) (Some sn) s)
      | [a] \<Rightarrow>
          (let a1 = a\<lparr>sip_alloc_type := alloc, sip_subnet := Some sn\<rparr>
           in Inr (a1, save_address a1 s))
      | _ \<Rightarrow> Inl MultipleObjectsReturned)"

section \<open>The reconciler's input\<close>

text \<open>
  The desired state of an interface is a dict; a key the code reads with \<open>config[...]\<close>
  and that may be missing is an option, and reading it when it is missing is a
  \<open>KeyError\<close>.  An address arrives parsed.  A hint is a dict read with \<open>.get\<close>
  throughout, so each of its keys is an option.
\<close>

record link =
  link_mode :: string
  link_address :: "ipnetwork option"
  link_gateway :: "ipaddress option"

record config =
  cfg_type :: string
  cfg_parents :: "string list"
  cfg_mac_address :: "string option"
  cfg_enabled :: bool
  cfg_links :: "link list"
  cfg_vid :: "nat option"

record hint =
  hint_ifname :: "string option"
  hint_vid :: "nat option"
  hint_hint :: "string option"
  hint_related_ifname :: "string option"
  hint_related_vid :: "nat option"
  hint_related_mac :: "string option"

section \<open>network.py\<close>

definition get_alloc_type_from_ip_addresses ::
    "ipaddress_type \<Rightarrow> staticipaddress list \<Rightarrow> staticipaddress option" where
  "get_alloc_type_from_ip_addresses alloc_type ip_addresses =
     find (\<lambda>ip_address. alloc_type = sip_alloc_type ip_address) ip_addresses"

definition get_ip_address_from_ip_addresses ::
    "ipaddress \<Rightarrow> staticipaddress list \<Rightarrow> staticipaddress option" where
  "get_ip_address_from_ip_addresses ip ip_addresses =
     find (\<lambda>ip_address. Some ip = sip_ip ip_address) ip_addresses"

text \<open>\<open>ip_address.subnet.vlan\<close>: the address may have no subnet.\<close>

definition address_subnet_vlan :: "store \<Rightarrow> staticipaddress \<Rightarrow> error + nat" where
  "address_subnet_vlan s ip_address =
     (case sip_subnet ip_address of
        None \<Rightarrow> Inl AttributeError
      | Some sn \<Rightarrow>
          (case find_subnet s sn of
             None \<Rightarrow> Inl DoesNotExist
           | Some row \<Rightarrow> Inr (subnet_vlan row)))"

fun guess_best_vlan_loop ::
    "store \<Rightarrow> nat option \<Rightarrow> staticipaddress list \<Rightarrow> error + nat option" where
  "guess_best_vlan_loop s second_best [] = Inr second_best"
| "guess_best_vlan_loop s second_best (ip_address # rest) =
     (if sip_alloc_type ip_address = STICKY
      then (case address_subnet_vlan s ip_address of
              Inl e \<Rightarrow> Inl e
            | Inr v \<Rightarrow> Inr (Some v))
      else if sip_alloc_type ip_address = DISCOVERED
      then (case address_subnet_vlan s ip_address of
              Inl e \<Rightarrow> Inl e
            | Inr v \<Rightarrow> guess_best_vlan_loop s (Some v) rest)
      else guess_best_vlan_loop s second_best rest)"

text \<open>
  The argument \<open>ip_addresses\<close> of \<open>guess_best_vlan_from_ip_addresses\<close> is the set
  that \<open>update_links\<close> returns.  Its elements are model objects, which are equal, and
  hash, by primary key.  Python leaves the order in which a loop meets the elements of a
  set to the interpreter: for a set that only grows it is a function of the keys in the
  order in which they were added, and it need not be that order.  The model keeps the
  elements of the set in the order of their addition (\<open>add_updated\<close>), and
  \<open>iteration_order\<close> lists them as a loop meets them.  The store holds that function as
  a table, from the keys as added to the keys as iterated; rows whose keys an entry leaves
  out follow in the order of their addition, as do the rows of a set without an entry.  So
  every table gives a permutation of the set, and every order of iteration is that of some
  table.
\<close>

definition iteration_order :: "store \<Rightarrow> staticipaddress list \<Rightarrow> staticipaddress list" where
  "iteration_order s rows =
     (case map_of (st_set_order s) (map sip_id rows) of
        None \<Rightarrow> rows
      | Some keys \<Rightarrow>
          concat (map (\<lambda>k. filter (\<lambda>row. sip_id row = k) rows) (remdups keys))
          @ filter (\<lambda>row. sip_id row \<notin> set keys) rows)"

definition guess_best_vlan_from_ip_addresses ::
    "store \<Rightarrow> staticipaddress list \<Rightarrow> error + nat option" where
  "guess_best_vlan_from_ip_addresses s ip_addresses =
     guess_best_vlan_loop s None (iteration_order s ip_addresses)"

definition get_interface_vlan_from_links :: "store \<Rightarrow> link list \<Rightarrow> vlan option" where
  "get_interface_vlan_from_links s links =
     (let cidrs = concat (map (\<lambda>l.
            if (link_mode l = ''static'' \<or> link_mode l = ''dhcp'') \<and> link_address l \<noteq> None
            then (case link_address l of Some a \<Rightarrow> [network_cidr a] | None \<Rightarrow> [])
            else []) links)
      in first (filter (\<lambda>v. \<exists>n \<in> set (st_subnets s).
                          subnet_vlan n = vlan_id v \<and> subnet_cidr n \<in> set cidrs)
                  (st_vlans s)))"

definition find_related_interface ::
    "store \<Rightarrow> node \<Rightarrow> bool \<Rightarrow> string option \<Rightarrow> string option \<Rightarrow> interface option" where
  "find_related_interface s node own_interface related_ifname related_mac =
     (let matches = (\<lambda>i.
            (case related_mac of None \<Rightarrow> True | Some mac \<Rightarrow> if_mac_address i = mac)
            \<and> (own_interface \<longrightarrow> if_node i = node_id node));
          related_interface =
            first (filter (\<lambda>i. if_type i = PHYSICAL \<and> matches i) (st_interfaces s))
      in if related_interface = None \<and> related_mac \<noteq> None
         then first (filter (\<lambda>i. if_type i = BRIDGE \<and> matches i
                               \<and> Some (if_name i) = related_ifname) (st_interfaces s))
         else related_interface)"

fun guess_vlan_loop :: "store \<Rightarrow> node \<Rightarrow> interface option \<Rightarrow> hint list \<Rightarrow> nat option" where
  "guess_vlan_loop s node related_interface [] = None"
| "guess_vlan_loop s node related_interface (hint # rest) =
     (let hint_type = hint_hint hint;
          related_mac = hint_related_mac hint;
          related_ifname = hint_related_ifname hint;
          related_interface1 =
            (if (hint_type = Some ''on_remote_network'' \<or> hint_type = Some ''routable_to'')
                \<and> related_mac \<noteq> None
             then find_related_interface s node False related_ifname related_mac
             else if hint_type = Some ''rx_own_beacon_on_other_interface''
                   \<or> hint_type = Some ''same_local_fabric_as''
             then find_related_interface s node True related_ifname None
             else related_interface)
      in (case related_interface1 of
            None \<Rightarrow> guess_vlan_loop s node related_interface1 rest
          | Some i \<Rightarrow>
              (case if_vlan i of
                 None \<Rightarrow> guess_vlan_loop s node related_interface1 rest
               | Some v \<Rightarrow> Some v)))"

definition relevant_hint :: "string \<Rightarrow> hint \<Rightarrow> bool" where
  "relevant_hint ifname hint =
     (hint_ifname hint = Some ifname \<and> hint_vid hint = None \<and> hint_related_vid hint = None)"

definition guess_vlan_from_hints :: "store \<Rightarrow> node \<Rightarrow> string \<Rightarrow> hint list \<Rightarrow> nat option" where
  "guess_vlan_from_hints s node ifname hints =
     guess_vlan_loop s node None (filter (relevant_hint ifname) hints)"

definition guess_vlan_for_interface :: "node \<Rightarrow> config \<Rightarrow> store \<Rightarrow> nat \<times> store" where
  "guess_vlan_for_interface node config s =
     (case get_interface_vlan_from_links s (cfg_links config) of
        Some new_vlan \<Rightarrow> (vlan_id new_vlan, s)
      | None \<Rightarrow>
          (let (default_vlan, s1) = get_default_vlan s;
               interfaces_on_default_vlan =
                 length (filter (\<lambda>i. if_vlan i = Some (vlan_id default_vlan)) (st_interfaces s1))
           in if interfaces_on_default_vlan = 0 then (vlan_id default_vlan, s1)
              else (let (new_vlan, s2) = create_fabric s1 in (vlan_id new_vlan, s2))))"

text \<open>
  The set \<open>updated_ip_addresses\<close> holds model objects, which are equal when their primary
  keys are: adding an object whose key the set holds changes nothing.  The list has the
  elements of the set in the order of their addition; a loop over the set meets them in
  the order \<open>iteration_order\<close>.
\<close>

definition add_updated :: "staticipaddress \<Rightarrow> staticipaddress list \<Rightarrow> staticipaddress list" where
  "add_updated a updated = (if sip_id a \<in> set (map sip_id updated) then updated else updated @ [a])"

type_synonym links_state = "store \<times> staticipaddress list \<times> staticipaddress list"

text \<open>
  One turn of the loop \<open>for link in links\<close> of \<open>update_links\<close>, on the store, the
  list \<open>current_ip_addresses\<close> and the set \<open>updated_ip_addresses\<close>, in the order of its
  statements.  A \<open>continue\<close> returns the state as it is at that point.  The variable
  \<open>vlan\<close> is bound whenever there is a link to process; were it not, the turn would
  raise.
\<close>

text \<open>The DHCP address of the interface: the first one in \<open>current_ip_addresses\<close>, which
  is taken off that list, or a new one, which is linked to the interface.\<close>

definition ensure_dhcp_address ::
    "interface \<Rightarrow> staticipaddress list \<Rightarrow> store
     \<Rightarrow> staticipaddress \<times> store \<times> staticipaddress list" where
  "ensure_dhcp_address interface current_ip_addresses s =
     (case get_alloc_type_from_ip_addresses DHCP current_ip_addresses of
        None \<Rightarrow>
          (let (a, sa) = create_address DHCP None None s;
               sb = save_address a sa
           in (a, link_add (if_id interface) (sip_id a) sb, current_ip_addresses))
      | Some a \<Rightarrow> (a, s, remove1 a current_ip_addresses))"

definition subnet_on_other_vlan :: "bool \<Rightarrow> subnet \<Rightarrow> interface \<Rightarrow> bool" where
  "subnet_on_other_vlan force_vlan subnet interface =
     (force_vlan \<and> Some (subnet_vlan subnet) \<noteq> if_vlan interface)"

definition update_dhcp_link ::
    "node \<Rightarrow> interface \<Rightarrow> nat \<Rightarrow> bool \<Rightarrow> link \<Rightarrow> links_state \<Rightarrow> error + links_state" where
  "update_dhcp_link node interface v force_vlan link st =
     (case st of (s, current_ip_addresses, updated_ip_addresses) \<Rightarrow>
        (let (dhcp_address, s1, current1) =
               ensure_dhcp_address interface current_ip_addresses s
         in (case link_address link of
               None \<Rightarrow> Inr (s1, current1, add_updated dhcp_address updated_ip_addresses)
             | Some ip_network \<Rightarrow>
                 (case subnet_get_or_create (network_cidr ip_network) v s1 of
                    Inl e \<Rightarrow> Inl e
                  | Inr (subnet, s2) \<Rightarrow>
                      if subnet_on_other_vlan force_vlan subnet interface
                      then Inr (maaslog_error
                                  (SubnetNotOnVLAN (network_ip ip_network) (if_name interface)
                                     (subnet_id subnet)) s2,
                                current1, updated_ip_addresses)
                      else (case address_update_or_create (network_ip ip_network) DISCOVERED
                                   (subnet_id subnet) s2 of
                              Inl e \<Rightarrow> Inl e
                            | Inr (ip_address, s3) \<Rightarrow>
                                Inr (link_add (if_id interface) (sip_id ip_address) s3,
                                     current1,
                                     add_updated dhcp_address updated_ip_addresses))))))"

text \<open>"Update the gateway on the subnet if one is not set."\<close>

definition update_gateway :: "link \<Rightarrow> subnet \<Rightarrow> store \<Rightarrow> subnet \<times> store" where
  "update_gateway link subnet s =
     (if subnet_gateway_ip subnet = None
         \<and> (case link_gateway link of
               None \<Rightarrow> False
             | Some gateway \<Rightarrow> ip_in_network gateway (subnet_cidr subnet))
      then (let sn = subnet\<lparr>subnet_gateway_ip := link_gateway link\<rparr>
            in (sn, save_subnet sn s))
      else (subnet, s))"

text \<open>"Determine if this interface already has this IP address."\<close>

definition find_or_create_sticky ::
    "ipaddress \<Rightarrow> subnet \<Rightarrow> staticipaddress list \<Rightarrow> store
     \<Rightarrow> error + staticipaddress \<times> store \<times> staticipaddress list" where
  "find_or_create_sticky ip_addr subnet current_ip_addresses s =
     (case get_ip_address_from_ip_addresses ip_addr current_ip_addresses of
        None \<Rightarrow>
          (case address_get_or_create ip_addr STICKY (subnet_id subnet) s of
             Inl e \<Rightarrow> Inl e
           | Inr (a, created, s1) \<Rightarrow>
               if \<not> created
               then (let a1 = a\<lparr>sip_alloc_type := STICKY, sip_subnet := Some (subnet_id subnet)\<rparr>
                     in Inr (a1, save_address a1 s1, current_ip_addresses))
               else Inr (a, s1, current_ip_addresses))
      | Some a \<Rightarrow> Inr (a, s, remove1 a current_ip_addresses))"

text \<open>"Make sure all interfaces assigned to the address belong to this node."\<close>

definition detach_other_nodes :: "node \<Rightarrow> staticipaddress \<Rightarrow> store \<Rightarrow> store" where
  "detach_other_nodes node ip_address s =
     fold (\<lambda>attached_nic t.
             if if_node attached_nic \<noteq> node_id node
             then link_remove (if_id attached_nic) (sip_id ip_address) t
             else t)
          (interface_set_of s (sip_id ip_address)) s"

definition update_static_link ::
    "node \<Rightarrow> interface \<Rightarrow> nat \<Rightarrow> bool \<Rightarrow> link \<Rightarrow> links_state \<Rightarrow> error + links_state" where
  "update_static_link node interface v force_vlan link st =
     (case st of (s, current_ip_addresses, updated_ip_addresses) \<Rightarrow>
        (case link_address link of
           None \<Rightarrow> Inl KeyError
         | Some ip_network \<Rightarrow>
             (case subnet_get_or_create (network_cidr ip_network) v s of
                Inl e \<Rightarrow> Inl e
              | Inr (subnet, s1) \<Rightarrow>
                  if subnet_on_other_vlan force_vlan subnet interface
                  then Inr (maaslog_error
                              (SubnetNotOnVLAN (network_ip ip_network) (if_name interface)
                                 (subnet_id subnet)) s1,
                            current_ip_addresses, updated_ip_addresses)
                  else
                    (let (subnet1, s2) = update_gateway link subnet s1
                     in (case find_or_create_sticky (network_ip ip_network) subnet1
                                current_ip_addresses s2 of
                           Inl e \<Rightarrow> Inl e
                         | Inr (ip_address, s3, current1) \<Rightarrow>
                             (let s4 = detach_other_nodes node ip_address s3;
                                  ip_address1 = ip_address\<lparr>sip_alloc_type := STICKY,
                                                  sip_subnet := Some (subnet_id subnet1)\<rparr>;
                                  s5 = save_address ip_address1 s4;
                                  s6 = link_add (if_id interface) (sip_id ip_address1) s5
                              in Inr (s6, current1,
                                      add_updated ip_address1 updated_ip_addresses)))))))"

definition update_link ::
    "node \<Rightarrow> interface \<Rightarrow> nat option \<Rightarrow> bool \<Rightarrow> link \<Rightarrow> links_state \<Rightarrow> error + links_state" where
  "update_link node interface vlan force_vlan link st =
     (if link_mode link = ''dhcp'' \<or> link_mode link = ''static''
      then (case vlan of
              None \<Rightarrow> Inl UnboundLocalError
            | Some v \<Rightarrow>
                if link_mode link = ''dhcp''
                then update_dhcp_link node interface v force_vlan link st
                else update_static_link node interface v force_vlan link st)
      else Inr st)"

fun update_links_loop ::
    "node \<Rightarrow> interface \<Rightarrow> nat option \<Rightarrow> bool \<Rightarrow> link list \<Rightarrow> links_state \<Rightarrow> error + links_state" where
  "update_links_loop node interface vlan force_vlan [] st = Inr st"
| "update_links_loop node interface vlan force_vlan (link # rest) st =
     (case update_link node interface vlan force_vlan link st of
        Inl e \<Rightarrow> Inl e
      | Inr st1 \<Rightarrow> update_links_loop node interface vlan force_vlan rest st1)"

text \<open>\<open>update_links\<close> returns the set of updated addresses; the interface object it was
  given may have got a VLAN, so the object is returned too.\<close>

definition update_links ::
    "node \<Rightarrow> interface \<Rightarrow> link list \<Rightarrow> bool \<Rightarrow> bool \<Rightarrow> store
     \<Rightarrow> error + staticipaddress list \<times> interface \<times> store" where
  "update_links node interface links force_vlan use_interface_vlan s =
     (let s1 = delete_addresses
                 (map sip_id (filter (\<lambda>a. sip_alloc_type a = DISCOVERED)
                                (ip_addresses_of s (if_id interface)))) s;
          current_ip_addresses = ip_addresses_of s1 (if_id interface);
          (vlan, interface1, s2) =
            (if use_interface_vlan \<and> if_vlan interface \<noteq> None
             then (if_vlan interface, interface, s1)
             else if links \<noteq> []
             then (let (v, sa) = create_fabric s1;
                       i1 = interface\<lparr>if_vlan := Some (vlan_id v)\<rparr>
                   in (Some (vlan_id v), i1, save_interface i1 sa))
             else (None, interface, s1))
      in (case update_links_loop node interface1 vlan force_vlan links
                 (s2, current_ip_addresses, []) of
            Inl e \<Rightarrow> Inl e
          | Inr (s3, current1, updated_ip_addresses) \<Rightarrow>
              Inr (updated_ip_addresses, interface1,
                   fold (unlink_ip_address (if_id interface1)) current1 s3)))"

definition add_field :: "field \<Rightarrow> field list \<Rightarrow> field list" where
  "add_field f update_fields = (if f \<in> set update_fields then update_fields else update_fields @ [f])"

text \<open>\<open>new_vlan.fabric.delete()\<close>\<close>

definition delete_fabric_of_vlan :: "nat \<Rightarrow> store \<Rightarrow> error + store" where
  "delete_fabric_of_vlan v s =
     (case find_vlan s v of
        None \<Rightarrow> Inl DoesNotExist
      | Some row \<Rightarrow> Inr (delete_fabric (vlan_fabric row) s))"

definition update_physical_links ::
    "node \<Rightarrow> interface \<Rightarrow> config \<Rightarrow> nat option \<Rightarrow> field list \<Rightarrow> store
     \<Rightarrow> error + interface \<times> field list \<times> store" where
  "update_physical_links node interface config new_vlan update_fields s =
     (case update_links node interface (cfg_links config) False True s of
        Inl e \<Rightarrow> Inl e
      | Inr (update_ip_addresses, interface1, s1) \<Rightarrow>
          (case guess_best_vlan_from_ip_addresses s1 update_ip_addresses of
             Inl e \<Rightarrow> Inl e
           | Inr None \<Rightarrow> Inr (interface1, update_fields, s1)
           | Inr (Some linked_vlan) \<Rightarrow>
               (let interface2 = interface1\<lparr>if_vlan := Some linked_vlan\<rparr>;
                    update_fields1 = add_field F_vlan update_fields
                in (case new_vlan of
                      None \<Rightarrow> Inr (interface2, update_fields1, s1)
                    | Some nv \<Rightarrow>
                        if linked_vlan \<noteq> nv
                        then (case delete_fabric_of_vlan nv s1 of
                                Inl e \<Rightarrow> Inl e
                              | Inr s2 \<Rightarrow> Inr (interface2, update_fields1, s2))
                        else Inr (interface2, update_fields1, s1)))))"

text \<open>\<open>PhysicalInterface.objects.get_or_create(mac_address=..., defaults=...)\<close>\<close>

definition physical_get_or_create ::
    "string \<Rightarrow> node \<Rightarrow> string \<Rightarrow> bool \<Rightarrow> store \<Rightarrow> error + interface \<times> bool \<times> store" where
  "physical_get_or_create mac_address node name is_enabled s =
     (case filter (\<lambda>i. if_type i = PHYSICAL \<and> if_mac_address i = mac_address) (st_interfaces s) of
        [] \<Rightarrow>
          (let (i, s1) = create_interface
                 \<lparr>if_id = 0, if_type = PHYSICAL, if_node = node_id node, if_name = name,
                  if_mac_address = mac_address, if_enabled = is_enabled, if_acquired = True,
                  if_vlan = None\<rparr> s
           in Inr (i, True, s1))
      | [i] \<Rightarrow> Inr (i, False, s)
      | _ \<Rightarrow> Inl MultipleObjectsReturned)"

text \<open>
  \<open>update_physical_interface\<close> in the order of its statements: the interfaces of the
  node that have the name and another MAC address are deleted; the interface with the MAC
  address is fetched or created; a VLAN is chosen when none is known (\<open>choose_vlan\<close>); an
  interface that was there already is moved to the node and renamed, and the enabled flag
  is brought in line (\<open>adopt_interface\<close>); the links are updated; the changed fields are
  saved.
\<close>

definition delete_renamed :: "node \<Rightarrow> string \<Rightarrow> string \<Rightarrow> store \<Rightarrow> store" where
  "delete_renamed node name mac_address s =
     delete_interfaces
       (map if_id (filter (\<lambda>i. if_type i = PHYSICAL \<and> if_node i = node_id node
                             \<and> if_name i = name \<and> if_mac_address i \<noteq> mac_address)
                     (st_interfaces s))) s"

definition choose_vlan ::
    "node \<Rightarrow> string \<Rightarrow> config \<Rightarrow> bool \<Rightarrow> hint list option \<Rightarrow> interface \<Rightarrow> store
     \<Rightarrow> nat option \<times> interface \<times> field list \<times> store" where
  "choose_vlan node name config create_fabrics hints interface s =
     (if create_fabrics \<and> if_vlan interface = None \<and> cfg_enabled config
      then (let hinted = (case hints of
                            None \<Rightarrow> None
                          | Some hs \<Rightarrow> guess_vlan_from_hints s node name hs);
                (new_vlan, s1) = (case hinted of
                                    None \<Rightarrow> (let (v, t) = guess_vlan_for_interface node config s
                                             in (Some v, t))
                                  | Some v \<Rightarrow> (Some v, s))
            in (case new_vlan of
                  None \<Rightarrow> (None, interface, [], s1)
                | Some v \<Rightarrow> (Some v, interface\<lparr>if_vlan := Some v\<rparr>, [F_vlan], s1)))
      else (None, interface, [], s))"

definition adopt_interface ::
    "node \<Rightarrow> string \<Rightarrow> bool \<Rightarrow> bool \<Rightarrow> interface \<Rightarrow> field list \<Rightarrow> store
     \<Rightarrow> interface \<times> field list \<times> store" where
  "adopt_interface node name is_enabled created interface update_fields s =
     (let (interface1, update_fields1, s1) =
            (if \<not> created
             then (let (i, uf, t) =
                         (if if_node interface \<noteq> node_id node
                          then (interface\<lparr>if_node := node_id node\<rparr>,
                                add_field F_node update_fields,
                                delete_addresses
                                  (map sip_id (ip_addresses_of s (if_id interface))) s)
                          else (interface, update_fields, s))
                   in (i\<lparr>if_name := name\<rparr>, add_field F_name uf, t))
             else (interface, update_fields, s))
      in if if_enabled interface1 \<noteq> is_enabled
         then (interface1\<lparr>if_enabled := is_enabled\<rparr>, add_field F_enabled update_fields1, s1)
         else (interface1, update_fields1, s1))"

definition save_update_fields :: "field list \<Rightarrow> interface \<Rightarrow> store \<Rightarrow> error + interface \<times> store" where
  "save_update_fields update_fields interface s =
     (if update_fields \<noteq> []
      then (case save_interface_fields update_fields interface s of
              Inl e \<Rightarrow> Inl e
            | Inr s1 \<Rightarrow> Inr (interface, s1))
      else Inr (interface, s))"

definition update_physical_interface ::
    "node \<Rightarrow> string \<Rightarrow> config \<Rightarrow> bool \<Rightarrow> hint list option \<Rightarrow> store
     \<Rightarrow> error + interface \<times> store" where
  "update_physical_interface node name config create_fabrics hints s =
     (case cfg_mac_address config of
        None \<Rightarrow> Inl KeyError
      | Some mac_address \<Rightarrow>
          (case physical_get_or_create mac_address node name (cfg_enabled config)
                  (delete_renamed node name mac_address s) of
             Inl e \<Rightarrow> Inl e
           | Inr (interface, created, s2) \<Rightarrow>
               (let (new_vlan, interface1, update_fields1, s3) =
                      choose_vlan node name config create_fabrics hints interface s2;
                    (interface3, update_fields3, s4) =
                      adopt_interface node name (cfg_enabled config) created interface1
                        update_fields1 s3
                in (case (if create_fabrics
                          then update_physical_links node interface3 config new_vlan
                                 update_fields3 s4
                          else Inr (interface3, update_fields3, s4)) of
                      Inl e \<Rightarrow> Inl e
                    | Inr (interface4, update_fields4, s5) \<Rightarrow>
                        save_update_fields update_fields4 interface4 s5))))"

text \<open>\<open>parent_nic.vlan.fabric\<close>: the parent may have no VLAN.\<close>

definition interface_vlan_row :: "store \<Rightarrow> interface \<Rightarrow> error + vlan" where
  "interface_vlan_row s i =
     (case if_vlan i of
        None \<Rightarrow> Inl AttributeError
      | Some v \<Rightarrow> (case find_vlan s v of None \<Rightarrow> Inl DoesNotExist | Some row \<Rightarrow> Inr row))"

text \<open>
  Modelled from the spec: the managers of the interface models
  (\<open>VLANInterface.objects.get_or_create\<close> with parents, \<open>get_or_create_on_node\<close>,
  \<open>get_interfaces_on_node_by_name\<close>) are not among the sources.  The spec (3): "Interfaces
  are created the first time the Reconciler sees their name for a node"; (4.5) a VLAN-tagged
  child has a single parent, a bond or bridge several.  An interface that exists is the one
  with the asked type, node and name (and, for a VLAN interface, VLAN and parent); a bond or
  bridge that exists gets the MAC address and the parents of this pass.
\<close>

definition vlaninterface_get_or_create ::
    "node \<Rightarrow> string \<Rightarrow> interface \<Rightarrow> vlan \<Rightarrow> store \<Rightarrow> error + interface \<times> store" where
  "vlaninterface_get_or_create node name parent_nic vl s =
     (case filter (\<lambda>i. if_type i = VLAN \<and> if_node i = node_id node \<and> if_name i = name
                      \<and> if_vlan i = Some (vlan_id vl)
                      \<and> if_id parent_nic \<in> set (parents_of s (if_id i))) (st_interfaces s) of
        [] \<Rightarrow>
          (let (i, s1) = create_interface
                 \<lparr>if_id = 0, if_type = VLAN, if_node = node_id node, if_name = name,
                  if_mac_address = if_mac_address parent_nic, if_enabled = True,
                  if_acquired = True, if_vlan = Some (vlan_id vl)\<rparr> s
           in Inr (i, add_parent (if_id i) (if_id parent_nic) s1))
      | [i] \<Rightarrow> Inr (i, s)
      | _ \<Rightarrow> Inl MultipleObjectsReturned)"

definition get_interfaces_on_node_by_name :: "store \<Rightarrow> node \<Rightarrow> string list \<Rightarrow> interface list" where
  "get_interfaces_on_node_by_name s node ifnames =
     filter (\<lambda>i. if_node i = node_id node \<and> if_name i \<in> set ifnames) (st_interfaces s)"

definition get_or_create_on_node ::
    "interface_type \<Rightarrow> node \<Rightarrow> string \<Rightarrow> string \<Rightarrow> interface list \<Rightarrow> store
     \<Rightarrow> interface \<times> store" where
  "get_or_create_on_node child_type node name mac_address parent_nics s =
     (case first (filter (\<lambda>i. if_type i = child_type \<and> if_node i = node_id node
                             \<and> if_name i = name) (st_interfaces s)) of
        None \<Rightarrow>
          (let (i, s1) = create_interface
                 \<lparr>if_id = 0, if_type = child_type, if_node = node_id node, if_name = name,
                  if_mac_address = mac_address, if_enabled = True, if_acquired = True,
                  if_vlan = None\<rparr> s
           in (i, fold (\<lambda>p. add_parent (if_id i) (if_id p)) parent_nics s1))
      | Some i \<Rightarrow>
          (let i1 = i\<lparr>if_mac_address := mac_address, if_acquired := True\<rparr>;
               s1 = save_interface i1 s;
               s2 = s1\<lparr>st_relationships :=
                         filter (\<lambda>(c, p). c \<noteq> if_id i1) (st_relationships s1)\<rparr>
           in (i1, fold (\<lambda>p. add_parent (if_id i1) (if_id p)) parent_nics s2)))"

definition update_vlan_interface ::
    "node \<Rightarrow> string \<Rightarrow> config \<Rightarrow> store \<Rightarrow> error + interface \<times> store" where
  "update_vlan_interface node name config s =
     (case cfg_vid config of
        None \<Rightarrow> Inl KeyError
      | Some vid \<Rightarrow>
     (case cfg_parents config of
        [] \<Rightarrow> Inl IndexError
      | parent_name # _ \<Rightarrow>
     (case get_one (filter (\<lambda>i. if_node i = node_id node \<and> if_name i = parent_name)
                      (st_interfaces s)) of
        Inl e \<Rightarrow> Inl e
      | Inr parent_nic \<Rightarrow>
     (case (case get_interface_vlan_from_links s (cfg_links config) of
              Some links_vlan \<Rightarrow>
                (case interface_vlan_row s parent_nic of
                   Inl e \<Rightarrow> Inl e
                 | Inr parent_vlan \<Rightarrow>
                     (let s1 = (if vlan_fabric parent_vlan \<noteq> vlan_fabric links_vlan
                                then maaslog_error (NotOnSameFabric (if_name parent_nic) name) s
                                else s);
                          s2 = (if vlan_vid links_vlan \<noteq> vid
                                then maaslog_error
                                       (ReportsOtherVLAN name vid (vlan_vid links_vlan)) s1
                                else s1)
                      in Inr (links_vlan, s2)))
            | None \<Rightarrow>
                (case interface_vlan_row s parent_nic of
                   Inl e \<Rightarrow> Inl e
                 | Inr parent_vlan \<Rightarrow> vlan_get_or_create (vlan_fabric parent_vlan) vid s)) of
        Inl e \<Rightarrow> Inl e
      | Inr (vl, s3) \<Rightarrow>
     (case (case first (filter (\<lambda>i. if_type i = VLAN \<and> if_node i = node_id node
                                  \<and> if_name i = name
                                  \<and> if_id parent_nic \<in> set (parents_of s3 (if_id i))
                                  \<and> (case interface_vlan_row s3 i of
                                        Inl e \<Rightarrow> False
                                      | Inr row \<Rightarrow> vlan_vid row = vid))
                          (st_interfaces s3)) of
              None \<Rightarrow> vlaninterface_get_or_create node name parent_nic vl s3
            | Some interface \<Rightarrow>
                if if_vlan interface \<noteq> Some (vlan_id vl)
                then (let i1 = interface\<lparr>if_vlan := Some (vlan_id vl)\<rparr>
                      in Inr (i1, save_interface i1 s3))
                else Inr (interface, s3)) of
        Inl e \<Rightarrow> Inl e
      | Inr (interface, s4) \<Rightarrow>
          (case update_links node interface (cfg_links config) True True s4 of
             Inl e \<Rightarrow> Inl e
           | Inr (update_ip_addresses, interface1, s5) \<Rightarrow> Inr (interface1, s5)))))))"

definition configure_vlan_from_links ::
    "node \<Rightarrow> interface \<Rightarrow> interface list \<Rightarrow> link list \<Rightarrow> store \<Rightarrow> bool \<times> interface \<times> store" where
  "configure_vlan_from_links node interface parent_nics links s =
     (case get_interface_vlan_from_links s links of
        None \<Rightarrow>
          (case parent_nics of
             [] \<Rightarrow> (False, interface, s)
           | parent_nic # _ \<Rightarrow>
               (let i1 = interface\<lparr>if_vlan := if_vlan parent_nic\<rparr>
                in (True, i1, save_interface i1 s)))
      | Some vl \<Rightarrow>
          (let i1 = interface\<lparr>if_vlan := Some (vlan_id vl)\<rparr>
           in (True, i1, save_interface i1 s)))"

definition update_parent_vlans ::
    "node \<Rightarrow> interface \<Rightarrow> interface list \<Rightarrow> staticipaddress list \<Rightarrow> store
     \<Rightarrow> error + interface \<times> store" where
  "update_parent_vlans node interface parent_nics update_ip_addresses s =
     (case guess_best_vlan_from_ip_addresses s update_ip_addresses of
        Inl e \<Rightarrow> Inl e
      | Inr None \<Rightarrow> Inr (interface, s)
      | Inr (Some linked_vlan) \<Rightarrow>
          (let i1 = interface\<lparr>if_vlan := Some linked_vlan\<rparr>;
               s1 = save_interface i1 s
           in Inr (i1, fold (\<lambda>parent_nic t.
                               if if_vlan parent_nic \<noteq> Some linked_vlan
                               then save_interface (parent_nic\<lparr>if_vlan := Some linked_vlan\<rparr>) t
                               else t)
                         parent_nics s1)))"

definition update_child_interface ::
    "node \<Rightarrow> string \<Rightarrow> config \<Rightarrow> interface_type \<Rightarrow> store \<Rightarrow> error + interface option \<times> store" where
  "update_child_interface node name config child_type s =
     (let ifnames = cfg_parents config;
          parent_nics = get_interfaces_on_node_by_name s node ifnames
      in if length parent_nics = 0 \<and> child_type \<noteq> BRIDGE then Inr (None, s)
         else
           (case cfg_mac_address config of
              None \<Rightarrow> Inl KeyError
            | Some mac_address \<Rightarrow>
                (let (interface, s1) =
                       get_or_create_on_node child_type node name mac_address parent_nics s;
                     links = cfg_links config;
                     (found_vlan, interface1, s2) =
                       configure_vlan_from_links node interface parent_nics links s1
                 in (case update_links node interface1 links False found_vlan s2 of
                       Inl e \<Rightarrow> Inl e
                     | Inr (update_ip_addresses, interface2, s3) \<Rightarrow>
                         (case update_parent_vlans node interface2 parent_nics
                                 update_ip_addresses s3 of
                            Inl e \<Rightarrow> Inl e
                          | Inr (interface3, s4) \<Rightarrow> Inr (Some interface3, s4))))))"

definition update_bond_interface ::
    "node \<Rightarrow> string \<Rightarrow> config \<Rightarrow> store \<Rightarrow> error + interface option \<times> store" where
  "update_bond_interface node name config s = update_child_interface node name config BOND s"

definition update_bridge_interface ::
    "node \<Rightarrow> string \<Rightarrow> config \<Rightarrow> store \<Rightarrow> error + interface option \<times> store" where
  "update_bridge_interface node name config s = update_child_interface node name config BRIDGE s"

definition update_interface ::
    "node \<Rightarrow> string \<Rightarrow> config \<Rightarrow> bool \<Rightarrow> hint list option \<Rightarrow> store
     \<Rightarrow> error + interface option \<times> store" where
  "update_interface node name config create_fabrics hints s =
     (if cfg_type config = ''physical''
      then (case update_physical_interface node name config create_fabrics hints s of
              Inl e \<Rightarrow> Inl e
            | Inr (interface, s1) \<Rightarrow> Inr (Some interface, s1))
      else if \<not> create_fabrics then Inr (None, s)
      else if cfg_type config = ''vlan''
      then (case update_vlan_interface node name config s of
              Inl e \<Rightarrow> Inl e
            | Inr (interface, s1) \<Rightarrow> Inr (Some interface, s1))
      else if cfg_type config = ''bond'' then update_bond_interface node name config s
      else if cfg_type config = ''bridge'' then update_bridge_interface node name config s
      else Inl ValueError)"

text \<open>
  The loop \<open>for name in flatten(process_order)\<close> of \<open>update_node_interfaces\<close>, on the
  store and the ids still in \<open>current_interfaces\<close>.  \<open>update_discovery_state\<close> and
  \<open>update_interface_details\<close> write columns (discovery state, hardware details) that the
  model leaves out.
\<close>

fun update_interfaces_loop ::
    "node \<Rightarrow> (string \<times> config) list \<Rightarrow> hint list option \<Rightarrow> bool \<Rightarrow> string list
     \<Rightarrow> store \<times> nat list \<Rightarrow> error + store \<times> nat list" where
  "update_interfaces_loop node interfaces hints create_fabrics [] st = Inr st"
| "update_interfaces_loop node interfaces hints create_fabrics (name # rest) st =
     (case st of (s, current_interfaces) \<Rightarrow>
      (case map_of interfaces name of
         None \<Rightarrow> Inl KeyError
       | Some settings \<Rightarrow>
           (case update_interface node name settings create_fabrics hints s of
              Inl e \<Rightarrow> Inl e
            | Inr (None, s1) \<Rightarrow>
                update_interfaces_loop node interfaces hints create_fabrics rest
                  (s1, current_interfaces)
            | Inr (Some interface, s1) \<Rightarrow>
                update_interfaces_loop node interfaces hints create_fabrics rest
                  (s1, filter (\<lambda>i. i \<noteq> if_id interface) current_interfaces))))"

definition process_order :: "(string \<times> config) list \<Rightarrow> error + string list" where
  "process_order interfaces =
     (case sorttop (map (\<lambda>(name, config). (name, cfg_parents config)) interfaces) of
        Inl e \<Rightarrow> Inl e
      | Inr batches \<Rightarrow> Inr (flatten (sorted_batches batches)))"

definition deletion_order :: "store \<Rightarrow> nat list \<Rightarrow> error + nat list" where
  "deletion_order s current_interfaces =
     (case sorttop (map (\<lambda>nic_id. (nic_id, filter (\<lambda>parent. parent \<in> set current_interfaces)
                                               (parents_of s nic_id)))
                      current_interfaces) of
        Inl e \<Rightarrow> Inl e
      | Inr batches \<Rightarrow> Inr (rev (flatten (sorted_batches batches))))"

definition delete_in_order :: "nat list \<Rightarrow> node \<times> store \<Rightarrow> node \<times> store" where
  "delete_in_order order st =
     fold (\<lambda>delete_id (node, s).
             ((if node_boot_interface_id node = Some delete_id
               then node\<lparr>node_boot_interface_id := None\<rparr> else node),
              delete_interface delete_id s))
          order st"

definition reconcile ::
    "node \<Rightarrow> (string \<times> config) list \<Rightarrow> hint list option \<Rightarrow> bool \<Rightarrow> store
     \<Rightarrow> error + node \<times> store" where
  "reconcile node interfaces topology_hints create_fabrics s =
     (let current_interfaces =
            map if_id (filter (\<lambda>i. if_node i = node_id node) (st_interfaces s))
      in (case process_order interfaces of
            Inl e \<Rightarrow> Inl e
          | Inr names \<Rightarrow>
              (case update_interfaces_loop node interfaces topology_hints create_fabrics names
                      (s, current_interfaces) of
                 Inl e \<Rightarrow> Inl e
               | Inr (s1, current1) \<Rightarrow>
                   if \<not> create_fabrics then Inr (node, s1)
                   else (case deletion_order s1 current1 of
                           Inl e \<Rightarrow> Inl e
                         | Inr order \<Rightarrow>
                             (let (node1, s2) = delete_in_order order (node, s1)
                              in Inr (node1, record_write (Saved NodeRow (node_id node1)) s2))))))"

text \<open>
  Modelled from the spec: the decorator \<open>transactional\<close> (\<open>maasserver.utils.orm\<close>) is not
  among the sources.  The spec (5): a pass "either fully succeeds or aborts on an
  unrecoverable condition, leaving prior committed state intact".  The result is what the
  call returns or raises, with the store as committed.
\<close>

definition transactional ::
    "(store \<Rightarrow> error + 'a \<times> store) \<Rightarrow> store \<Rightarrow> (error + 'a) \<times> store" where
  "transactional f s = (case f s of Inl e \<Rightarrow> (Inl e, s) | Inr (x, s1) \<Rightarrow> (Inr x, s1))"

definition update_node_interfaces ::
    "node \<Rightarrow> (string \<times> config) list \<Rightarrow> hint list option \<Rightarrow> bool \<Rightarrow> store
     \<Rightarrow> (error + node) \<times> store" where
  "update_node_interfaces node interfaces topology_hints create_fabrics s =
     transactional (reconcile node interfaces topology_hints create_fabrics) s"

section \<open>Orders and their properties\<close>







subsection \<open>A node with a bond and a tagged interface on it\<close>

definition example_config :: "string \<Rightarrow> string list \<Rightarrow> config" where
  "example_config type parents =
     \<lparr>cfg_type = type, cfg_parents = parents, cfg_mac_address = Some ''52:54:00:00:00:01'',
      cfg_enabled = True, cfg_links = [], cfg_vid = Some 10\<rparr>"


definition example_row :: "nat \<Rightarrow> interface_type \<Rightarrow> string \<Rightarrow> interface" where
  "example_row i type name =
     \<lparr>if_id = i, if_type = type, if_node = 1, if_name = name,
      if_mac_address = ''52:54:00:00:00:01'', if_enabled = True, if_acquired = True,
      if_vlan = None\<rparr>"


subsection \<open>The VLAN that a set of addresses implies, in the spec's words\<close>




subsection \<open>A bridge over two interfaces, with a static address on VLAN 5\<close>

definition bridge_node :: node where
  "bridge_node = \<lparr>node_id = 1, node_hostname = ''rack'', node_boot_interface_id = None\<rparr>"


subsection \<open>The VLAN that the hints imply, in the claim's words\<close>

text \<open>
  The VLAN of the interface a hint relates to, when the hint is of a kind that names one
  and that interface has a VLAN; and the first of these over a list of hints.
\<close>

definition related_vlan :: "store \<Rightarrow> node \<Rightarrow> hint \<Rightarrow> nat option" where
  "related_vlan s node hint =
     (case (if (hint_hint hint = Some ''on_remote_network'' \<or> hint_hint hint = Some ''routable_to'')
               \<and> hint_related_mac hint \<noteq> None
            then find_related_interface s node False (hint_related_ifname hint)
                   (hint_related_mac hint)
            else if hint_hint hint = Some ''rx_own_beacon_on_other_interface''
                  \<or> hint_hint hint = Some ''same_local_fabric_as''
            then find_related_interface s node True (hint_related_ifname hint) None
            else None) of
        None \<Rightarrow> None
      | Some i \<Rightarrow> if_vlan i)"

fun first_some :: "'a option list \<Rightarrow> 'a option" where
  "first_some [] = None"
| "first_some (None # rest) = first_some rest"
| "first_some (Some v # rest) = Some v"

subsection \<open>A node with one interface on a VLAN and one without\<close>

definition hinted_store :: store where
  "hinted_store =
     \<lparr>st_interfaces = [(example_row 1 PHYSICAL ''eth0'')\<lparr>if_vlan := Some 4, if_mac_address := ''m0''\<rparr>,
                       (example_row 2 PHYSICAL ''eth1'')\<lparr>if_mac_address := ''m1''\<rparr>],
      st_relationships = [],
      st_fabrics = [0],
      st_vlans = [\<lparr>vlan_id = 4, vlan_vid = 0, vlan_fabric = 0\<rparr>],
      st_subnets = [], st_addresses = [], st_links = [],
      st_next_id = 5, st_journal = [], st_maaslog = [],
      st_set_order = []\<rparr>"

definition example_hints :: "hint list" where
  "example_hints =
     [\<lparr>hint_ifname = Some ''eth0'', hint_vid = None,
       hint_hint = Some ''rx_own_beacon_on_other_interface'',
       hint_related_ifname = Some ''eth1'', hint_related_vid = None, hint_related_mac = None\<rparr>,
      \<lparr>hint_ifname = Some ''eth1'', hint_vid = None,
       hint_hint = Some ''rx_own_beacon_on_other_interface'',
       hint_related_ifname = Some ''eth0'', hint_related_vid = None, hint_related_mac = None\<rparr>]"

subsection \<open>A tagged interface and a subnet on another VLAN\<close>



definition static_link :: link where
  "static_link =
     \<lparr>link_mode = ''static'',
      link_address = Some \<lparr>ipn_version = 4, ipn_value = 1285, ipn_prefixlen = 24\<rparr>,
      link_gateway = None\<rparr>"


subsection \<open>An address linked to interfaces of two nodes\<close>

definition shared_store :: store where
  "shared_store =
     \<lparr>st_interfaces = [(example_row 1 PHYSICAL ''eth0'')\<lparr>if_vlan := Some 5\<rparr>,
                       (example_row 2 PHYSICAL ''eth1'')\<lparr>if_vlan := Some 5\<rparr>,
                       (example_row 6 PHYSICAL ''eno1'')\<lparr>if_vlan := Some 5, if_node := 2\<rparr>],
      st_relationships = [],
      st_fabrics = [0],
      st_vlans = [\<lparr>vlan_id = 5, vlan_vid = 0, vlan_fabric = 0\<rparr>],
      st_subnets = [\<lparr>subnet_id = 7,
                      subnet_cidr = \<lparr>ipn_version = 4, ipn_value = 1280, ipn_prefixlen = 24\<rparr>,
                      subnet_vlan = 5, subnet_gateway_ip = None\<rparr>],
      st_addresses = [\<lparr>sip_id = 9, sip_alloc_type = STICKY, sip_ip = Some (4, 1285),
                        sip_subnet = Some 7\<rparr>],
      st_links = [(1, 9), (6, 9)],
      st_next_id = 10, st_journal = [], st_maaslog = [],
      st_set_order = []\<rparr>"

subsection \<open>An empty store\<close>

definition empty_store :: store where
  "empty_store =
     \<lparr>st_interfaces = [], st_relationships = [], st_fabrics = [], st_vlans = [],
      st_subnets = [], st_addresses = [], st_links = [],
      st_next_id = 1, st_journal = [], st_maaslog = [],
      st_set_order = []\<rparr>"

subsection \<open>An interface of node 1 with two addresses, and node 2\<close>




subsection \<open>The bridge, reconciled with a static link\<close>






section \<open>Properties\<close>

subsection \<open>Topological sorting\<close>



lemma keys_strike: "fst ` set (strike batch data) = fst ` set data - set batch"
  by (force simp: strike_def)






lemma skim_step:
  assumes "skim data = Inr batches" and "data \<noteq> []"
  obtains rest where "ready data \<noteq> []" and "skim (strike (ready data) data) = Inr rest"
    and "batches = ready data # rest"
proof -
  have e: "skim data =
     (if ready data = [] then Inl CircularDependency
      else (case skim (strike (ready data) data) of
              Inl e \<Rightarrow> Inl e
            | Inr batches \<Rightarrow> Inr (ready data # batches)))"
    using assms(2) by (subst skim.simps) simp
  from assms(1) have r: "ready data \<noteq> []" unfolding e by (cases "ready data = []") simp_all
  show ?thesis
  proof (cases "skim (strike (ready data) data)")
    case (Inl err)
    with assms(1) r show ?thesis unfolding e by simp
  next
    case (Inr rest)
    with assms(1) r have "batches = ready data # rest" unfolding e by simp
    with r Inr that show ?thesis by blast
  qed
qed

lemma skim_keys: "skim data = Inr batches \<Longrightarrow> set (concat batches) = fst ` set data"
proof (induction data arbitrary: batches rule: skim.induct)
  case (1 data)
  show ?case
  proof (cases "data = []")
    case True
    with 1(2) show ?thesis by (subst (asm) skim.simps) simp
  next
    case False
    from 1(2) False obtain rest where r: "ready data \<noteq> []"
        and sk: "skim (strike (ready data) data) = Inr rest" and b: "batches = ready data # rest"
      by (rule skim_step)
    have "set (concat rest) = fst ` set data - set (ready data)"
      using 1(1) [OF False r sk] by (simp add: keys_strike)
    moreover have "set (ready data) \<subseteq> fst ` set data" by (force simp: ready_def)
    ultimately show ?thesis using b by auto
  qed
qed











lemma sorted_batches_Nil: "sorted_batches [] = []"
  by (simp add: sorted_batches_def)

lemma sorted_batches_Cons: "sorted_batches (b # bs) = sort (remdups b) # sorted_batches bs"
  by (simp add: sorted_batches_def)

lemma set_concat_sorted_batches: "set (concat (sorted_batches bs)) = set (concat bs)"
  by (induction bs) (simp_all add: sorted_batches_Nil sorted_batches_Cons)














subsection \<open>C3: construction and deletion order\<close>



subsection \<open>VLAN inference and propagation to parents\<close>











lemma same_id_same_row:
  "distinct (map if_id rows) \<Longrightarrow> x \<in> set rows \<Longrightarrow> y \<in> set rows \<Longrightarrow> if_id x = if_id y \<Longrightarrow> x = y"
  by (simp add: distinct_map inj_on_def)

subsection \<open>Hints\<close>

lemma guess_vlan_loop_eq:
  assumes "case related_interface of None \<Rightarrow> True | Some i \<Rightarrow> if_vlan i = None"
  shows "guess_vlan_loop s node related_interface hints = first_some (map (related_vlan s node) hints)"
  using assms
proof (induction hints arbitrary: related_interface)
  case Nil
  then show ?case by simp
next
  case (Cons hint hints)
  define r1 where "r1 =
     (if (hint_hint hint = Some ''on_remote_network'' \<or> hint_hint hint = Some ''routable_to'')
         \<and> hint_related_mac hint \<noteq> None
      then find_related_interface s node False (hint_related_ifname hint) (hint_related_mac hint)
      else if hint_hint hint = Some ''rx_own_beacon_on_other_interface''
            \<or> hint_hint hint = Some ''same_local_fabric_as''
      then find_related_interface s node True (hint_related_ifname hint) None
      else related_interface)"
  have step: "guess_vlan_loop s node related_interface (hint # hints) =
      (case r1 of
         None \<Rightarrow> guess_vlan_loop s node r1 hints
       | Some i \<Rightarrow> (case if_vlan i of None \<Rightarrow> guess_vlan_loop s node r1 hints | Some v \<Rightarrow> Some v))"
    by (simp only: guess_vlan_loop.simps Let_def r1_def)
  have rv: "related_vlan s node hint = (case r1 of None \<Rightarrow> None | Some i \<Rightarrow> if_vlan i)"
    using Cons.prems by (auto simp: related_vlan_def r1_def split: option.splits)
  show ?case
  proof (cases r1)
    case None
    then have "guess_vlan_loop s node r1 hints = first_some (map (related_vlan s node) hints)"
      by (intro Cons.IH) simp
    with None show ?thesis unfolding step by (simp add: rv)
  next
    case (Some i)
    show ?thesis
    proof (cases "if_vlan i")
      case None
      with Some have "guess_vlan_loop s node r1 hints = first_some (map (related_vlan s node) hints)"
        by (intro Cons.IH) simp
      with None Some show ?thesis unfolding step by (simp add: rv)
    next
      case (Some v)
      with \<open>r1 = Some i\<close> show ?thesis unfolding step by (simp add: rv)
    qed
  qed
qed

lemma guess_vlan_from_hints_eq:
  "guess_vlan_from_hints s node ifname hints =
     first_some (map (related_vlan s node) (filter (relevant_hint ifname) hints))"
  unfolding guess_vlan_from_hints_def by (rule guess_vlan_loop_eq) simp

lemma delete_interface_rows:
  "st_interfaces (delete_interface i s) = filter (\<lambda>row. if_id row \<noteq> i) (st_interfaces s)"
proof (cases "i \<in> set (map if_id (st_interfaces s))")
  case True
  then show ?thesis by (simp add: delete_interface_def record_write_def)
next
  case False
  then have "\<forall>row \<in> set (st_interfaces s). if_id row \<noteq> i" by (metis imageI set_map)
  then have "filter (\<lambda>row. if_id row \<noteq> i) (st_interfaces s) = st_interfaces s" by simp
  with False show ?thesis by (simp add: delete_interface_def)
qed

lemma delete_interfaces_rows:
  "st_interfaces (delete_interfaces ids s) = filter (\<lambda>row. if_id row \<notin> set ids) (st_interfaces s)"
proof (induction ids arbitrary: s)
  case Nil
  then show ?case by (simp add: delete_interfaces_def)
next
  case (Cons i ids)
  have "delete_interfaces (i # ids) s = delete_interfaces ids (delete_interface i s)"
    by (simp add: delete_interfaces_def)
  then show ?case by (simp add: Cons.IH delete_interface_rows conj_commute)
qed

lemma delete_renamed_keeps:
  assumes "distinct (map if_id (st_interfaces s))"
  shows "filter (\<lambda>i. if_type i = PHYSICAL \<and> if_mac_address i = mac) (st_interfaces (delete_renamed node name mac s))
       = filter (\<lambda>i. if_type i = PHYSICAL \<and> if_mac_address i = mac) (st_interfaces s)"
proof -
  let ?gone = "filter (\<lambda>i. if_type i = PHYSICAL \<and> if_node i = node_id node
                             \<and> if_name i = name \<and> if_mac_address i \<noteq> mac) (st_interfaces s)"
  have "\<And>row. row \<in> set (st_interfaces s) \<Longrightarrow> if_type row = PHYSICAL \<and> if_mac_address row = mac
          \<Longrightarrow> if_id row \<notin> set (map if_id ?gone)"
  proof
    fix row
    assume r: "row \<in> set (st_interfaces s)" and m: "if_type row = PHYSICAL \<and> if_mac_address row = mac"
      and "if_id row \<in> set (map if_id ?gone)"
    then obtain g where g: "g \<in> set ?gone" "if_id g = if_id row" by auto
    then have "g \<in> set (st_interfaces s)" by simp
    with r g(2) have "g = row" using same_id_same_row [OF assms] by blast
    with g(1) m show False by simp
  qed
  then show ?thesis
    unfolding delete_renamed_def delete_interfaces_rows filter_filter
    by (intro filter_cong refl) auto
qed

lemma choose_vlan_without_hints:
  "\<not> (create_fabrics \<and> if_vlan interface = None \<and> cfg_enabled config) \<Longrightarrow>
     choose_vlan node name config create_fabrics hints interface s = (None, interface, [], s)"
  unfolding choose_vlan_def by (rule if_not_P)

text \<open>
  C10.  A VLAN derived from hints never replaces a VLAN that a physical interface has:
  \<open>update_physical_interface\<close> does with any hints what it does without hints when
  \<open>create_fabrics\<close> is false, when the interface is not enabled, or when the interface
  with the MAC address exists and has a VLAN.  \<open>guess_vlan_from_hints\<close> looks only at the
  hints whose \<open>ifname\<close> is the interface's name and that have neither \<open>vid\<close> nor
  \<open>related_vid\<close>, and returns the VLAN of the first related interface that has one.
\<close>

theorem hints_never_overwrite_vlan:
  assumes "distinct (map if_id (st_interfaces s))"
  shows "guess_vlan_from_hints s node ifname hints =
           first_some (map (related_vlan s node)
             (filter (\<lambda>h. hint_ifname h = Some ifname \<and> hint_vid h = None
                           \<and> hint_related_vid h = None) hints))
     \<and> (\<not> create_fabrics \<or> \<not> cfg_enabled config
          \<or> (\<exists>mac i. cfg_mac_address config = Some mac
                 \<and> filter (\<lambda>i. if_type i = PHYSICAL \<and> if_mac_address i = mac) (st_interfaces s) = [i]
                 \<and> if_vlan i \<noteq> None)
         \<longrightarrow> update_physical_interface node name config create_fabrics (Some hints) s
             = update_physical_interface node name config create_fabrics None s)"
proof (intro conjI impI)
  have "relevant_hint ifname = (\<lambda>h. hint_ifname h = Some ifname \<and> hint_vid h = None
                           \<and> hint_related_vid h = None)"
    by (rule ext) (simp add: relevant_hint_def)
  then show "guess_vlan_from_hints s node ifname hints =
           first_some (map (related_vlan s node)
             (filter (\<lambda>h. hint_ifname h = Some ifname \<and> hint_vid h = None
                           \<and> hint_related_vid h = None) hints))"
    using guess_vlan_from_hints_eq [of s node ifname hints] by simp
next
  assume "\<not> create_fabrics \<or> \<not> cfg_enabled config
          \<or> (\<exists>mac i. cfg_mac_address config = Some mac
                 \<and> filter (\<lambda>i. if_type i = PHYSICAL \<and> if_mac_address i = mac) (st_interfaces s) = [i]
                 \<and> if_vlan i \<noteq> None)"
  then consider (off) "\<not> (create_fabrics \<and> cfg_enabled config)"
    | (known) mac i where "cfg_mac_address config = Some mac"
        "filter (\<lambda>i. if_type i = PHYSICAL \<and> if_mac_address i = mac) (st_interfaces s) = [i]"
        "if_vlan i \<noteq> None"
    by blast
  then show "update_physical_interface node name config create_fabrics (Some hints) s
             = update_physical_interface node name config create_fabrics None s"
  proof cases
    case off
    then have c: "\<And>h interface t. choose_vlan node name config create_fabrics h interface t
        = (None, interface, [], t)"
      by (intro choose_vlan_without_hints) blast
    show ?thesis unfolding update_physical_interface_def c by (rule refl)
  next
    case known
    have "filter (\<lambda>i. if_type i = PHYSICAL \<and> if_mac_address i = mac)
            (st_interfaces (delete_renamed node name mac s)) = [i]"
      using delete_renamed_keeps [OF assms] known(2) by simp
    then have g: "physical_get_or_create mac node name (cfg_enabled config)
                 (delete_renamed node name mac s) = Inr (i, False, delete_renamed node name mac s)"
      by (simp add: physical_get_or_create_def)
    have c: "\<And>h t. choose_vlan node name config create_fabrics h i t = (None, i, [], t)"
      using known(3) by (intro choose_vlan_without_hints) blast
    show ?thesis by (simp add: update_physical_interface_def known(1) g c)
  qed
qed

theorem hints_never_overwrite_vlan_witness:
  "distinct (map if_id (st_interfaces hinted_store))
   \<and> (\<exists>mac i. cfg_mac_address (example_config ''physical'' []\<lparr>cfg_mac_address := Some ''m0''\<rparr>) = Some mac
          \<and> filter (\<lambda>i. if_type i = PHYSICAL \<and> if_mac_address i = mac) (st_interfaces hinted_store) = [i]
          \<and> if_vlan i \<noteq> None)
   \<and> guess_vlan_from_hints hinted_store bridge_node ''eth1'' example_hints = Some 4
   \<and> guess_vlan_from_hints hinted_store bridge_node ''eth2'' example_hints = None
   \<and> update_physical_interface bridge_node ''eth0''
        (example_config ''physical'' []\<lparr>cfg_mac_address := Some ''m0''\<rparr>) True
        (Some example_hints) hinted_store
     = update_physical_interface bridge_node ''eth0''
        (example_config ''physical'' []\<lparr>cfg_mac_address := Some ''m0''\<rparr>) True None hinted_store"
proof -
  have h: "distinct (map if_id (st_interfaces hinted_store))" by code_simp
  have k: "\<exists>mac i. cfg_mac_address (example_config ''physical'' []\<lparr>cfg_mac_address := Some ''m0''\<rparr>) = Some mac
          \<and> filter (\<lambda>i. if_type i = PHYSICAL \<and> if_mac_address i = mac) (st_interfaces hinted_store) = [i]
          \<and> if_vlan i \<noteq> None"
    by (simp add: example_config_def hinted_store_def example_row_def)
  have g1: "guess_vlan_from_hints hinted_store bridge_node ''eth1'' example_hints = Some 4"
    by code_simp
  have g0: "guess_vlan_from_hints hinted_store bridge_node ''eth2'' example_hints = None"
    by code_simp
  from hints_never_overwrite_vlan [OF h, of bridge_node "''eth0''" example_hints True
      "example_config ''physical'' []\<lparr>cfg_mac_address := Some ''m0''\<rparr>" "''eth0''"] k
  have "update_physical_interface bridge_node ''eth0''
        (example_config ''physical'' []\<lparr>cfg_mac_address := Some ''m0''\<rparr>) True
        (Some example_hints) hinted_store
     = update_physical_interface bridge_node ''eth0''
        (example_config ''physical'' []\<lparr>cfg_mac_address := Some ''m0''\<rparr>) True None hinted_store"
    by blast
  with h k g1 g0 show ?thesis by blast
qed

subsection \<open>C6: a link whose subnet is on another VLAN\<close>




subsection \<open>C5: the address of a static link and the interfaces it is linked to\<close>

lemma link_remove_simps:
  "st_interfaces (link_remove i a s) = st_interfaces s"
  "st_addresses (link_remove i a s) = st_addresses s"
  "set (st_links (link_remove i a s)) = set (st_links s) - {(i, a)}"
  by (auto simp: link_remove_def record_write_def)

lemma link_add_simps:
  "st_interfaces (link_add i a s) = st_interfaces s"
  "st_addresses (link_add i a s) = st_addresses s"
  "set (st_links (link_add i a s)) = insert (i, a) (set (st_links s))"
  by (auto simp: link_add_def record_write_def)

lemma save_address_simps:
  "st_interfaces (save_address obj s) = st_interfaces s"
  "st_links (save_address obj s) = st_links s"
  "obj \<in> set (st_addresses (save_address obj s))"
  by (auto simp: save_address_def record_write_def)

lemma detach_fold:
  "st_interfaces (fold (\<lambda>attached_nic t.
             if if_node attached_nic \<noteq> n then link_remove (if_id attached_nic) a t else t) nics s)
     = st_interfaces s
   \<and> set (st_links (fold (\<lambda>attached_nic t.
             if if_node attached_nic \<noteq> n then link_remove (if_id attached_nic) a t else t) nics s))
     = set (st_links s) - {(if_id m, a) | m. m \<in> set nics \<and> if_node m \<noteq> n}"
proof (induction nics arbitrary: s)
  case Nil
  then show ?case by simp
next
  case (Cons nic nics)
  show ?case
  proof (cases "if_node nic \<noteq> n")
    case True
    then show ?thesis
      using Cons.IH [of "link_remove (if_id nic) a s"] by (auto simp: link_remove_simps)
  next
    case False
    then show ?thesis using Cons.IH [of s] by auto
  qed
qed

lemma detach_other_nodes_simps:
  "st_interfaces (detach_other_nodes node ip_address s) = st_interfaces s"
  "set (st_links (detach_other_nodes node ip_address s)) =
     set (st_links s) - {(if_id m, sip_id ip_address) | m.
                           m \<in> set (interface_set_of s (sip_id ip_address))
                           \<and> if_node m \<noteq> node_id node}"
  unfolding detach_other_nodes_def using detach_fold by blast+

lemma find_or_create_sticky_ip:
  assumes "find_or_create_sticky ip_addr subnet current s = Inr (a, s', current')"
  shows "sip_ip a = Some ip_addr"
proof (cases "get_ip_address_from_ip_addresses ip_addr current")
  case (Some b)
  with assms have "a = b" by (simp add: find_or_create_sticky_def)
  with Some show ?thesis
    by (auto simp: get_ip_address_from_ip_addresses_def find_Some_iff)
next
  case None
  show ?thesis
  proof (cases "filter (\<lambda>a. sip_ip a = Some ip_addr) (st_addresses s)")
    case Nil
    with None assms show ?thesis
      by (auto simp: find_or_create_sticky_def address_get_or_create_def create_address_def
            fresh_id_def Let_def)
  next
    case (Cons b bs)
    then have "b \<in> set (filter (\<lambda>a. sip_ip a = Some ip_addr) (st_addresses s))" by simp
    then have b: "sip_ip b = Some ip_addr" by simp
    from Cons None assms have "bs = []" and "a = b\<lparr>sip_alloc_type := STICKY, sip_subnet := Some (subnet_id subnet)\<rparr>"
      by (cases bs; simp add: find_or_create_sticky_def address_get_or_create_def Let_def)+
    with b show ?thesis by simp
  qed
qed

lemma subnet_get_or_create_maaslog:
  "subnet_get_or_create cidr v s = Inr (subnet, s1) \<Longrightarrow> st_maaslog s1 = st_maaslog s"
  by (auto simp: subnet_get_or_create_def fresh_id_def record_write_def Let_def
        split: list.splits)

text \<open>
  C5, as stated, fails: the address is detached only from the interfaces of other nodes
  ("make sure all interfaces assigned to the address belong to this node").  Here the
  address 9 is linked to \<open>eth0\<close> of the node and to \<open>eno1\<close> of another node; reconciling a
  static link for it on \<open>eth1\<close> of the node detaches \<open>eno1\<close> and leaves \<open>eth0\<close> linked.
\<close>

theorem address_stays_on_own_interfaces_counterexample:
  "update_links bridge_node ((example_row 2 PHYSICAL ''eth1'')\<lparr>if_vlan := Some 5\<rparr>)
     [static_link] False True shared_store =
     Inr ([\<lparr>sip_id = 9, sip_alloc_type = STICKY, sip_ip = Some (4, 1285), sip_subnet = Some 7\<rparr>],
          (example_row 2 PHYSICAL ''eth1'')\<lparr>if_vlan := Some 5\<rparr>,
          shared_store
            \<lparr>st_links := [(1, 9), (2, 9)],
             st_journal := [Saved StaticIPAddressRow 9, Unlinked 6 9, Saved StaticIPAddressRow 9,
                            Linked 2 9]\<rparr>)"
  by code_simp

text \<open>
  C5, amended.  When a static link has been processed and not skipped (no warning was
  logged), the store has a STICKY address with the link's IP address that is linked to the
  interface being reconciled, and every other interface it is linked to belongs to the
  node: it has been detached from the interfaces of every other node.
\<close>

theorem sticky_address_detached_from_other_nodes:
  assumes "link_mode link = ''static''"
    and "link_address link = Some ip_network"
    and "update_link node interface (Some v) force_vlan link (s, current, updated)
           = Inr (s', current', updated')"
    and "st_maaslog s' = st_maaslog s"
  shows "\<exists>a \<in> set (st_addresses s').
           sip_ip a = Some (network_ip ip_network) \<and> sip_alloc_type a = STICKY
           \<and> (if_id interface, sip_id a) \<in> set (st_links s')
           \<and> (\<forall>n \<in> set (interface_set_of s' (sip_id a)).
                 if_node n = node_id node \<or> if_id n = if_id interface)"
proof -
  from assms(1,3) have u: "update_static_link node interface v force_vlan link (s, current, updated)
           = Inr (s', current', updated')"
    by (simp add: update_link_def)
  from u assms(2) obtain subnet s1 where
      g: "subnet_get_or_create (network_cidr ip_network) v s = Inr (subnet, s1)"
    by (cases "subnet_get_or_create (network_cidr ip_network) v s")
       (auto simp: update_static_link_def)
  have ns: "\<not> subnet_on_other_vlan force_vlan subnet interface"
  proof
    assume "subnet_on_other_vlan force_vlan subnet interface"
    with u assms(2) g have "st_maaslog s' = st_maaslog s1 @
        [SubnetNotOnVLAN (network_ip ip_network) (if_name interface) (subnet_id subnet)]"
      by (auto simp: update_static_link_def maaslog_error_def)
    with assms(4) subnet_get_or_create_maaslog [OF g] show False by simp
  qed
  obtain subnet1 s2 where gw: "update_gateway link subnet s1 = (subnet1, s2)"
    by (cases "update_gateway link subnet s1") blast
  from u assms(2) g ns gw obtain ip_address s3 current1 where
      f: "find_or_create_sticky (network_ip ip_network) subnet1 current s2
            = Inr (ip_address, s3, current1)"
    by (cases "find_or_create_sticky (network_ip ip_network) subnet1 current s2")
       (auto simp: update_static_link_def)
  define a where "a = ip_address\<lparr>sip_alloc_type := STICKY, sip_subnet := Some (subnet_id subnet1)\<rparr>"
  define s4 where "s4 = detach_other_nodes node ip_address s3"
  from u assms(2) g ns gw f have s': "s' = link_add (if_id interface) (sip_id a) (save_address a s4)"
    by (simp add: update_static_link_def Let_def a_def s4_def)
  have id: "sip_id a = sip_id ip_address" by (simp add: a_def)
  have 1: "a \<in> set (st_addresses s')" by (simp add: s' link_add_simps save_address_simps)
  have 2: "sip_ip a = Some (network_ip ip_network)"
    using find_or_create_sticky_ip [OF f] by (simp add: a_def)
  have 3: "sip_alloc_type a = STICKY" by (simp add: a_def)
  have 4: "(if_id interface, sip_id a) \<in> set (st_links s')" by (simp add: s' link_add_simps)
  have 5: "\<forall>n \<in> set (interface_set_of s' (sip_id a)).
                 if_node n = node_id node \<or> if_id n = if_id interface"
  proof
    fix n
    assume "n \<in> set (interface_set_of s' (sip_id a))"
    then have n: "n \<in> set (st_interfaces s3)"
        and l: "(if_id n, sip_id a) \<in> insert (if_id interface, sip_id a) (set (st_links s4))"
      by (simp_all add: interface_set_of_def s' link_add_simps save_address_simps s4_def
            detach_other_nodes_simps)
    show "if_node n = node_id node \<or> if_id n = if_id interface"
    proof (cases "if_id n = if_id interface")
      case False
      with l have l4: "(if_id n, sip_id ip_address) \<in> set (st_links s4)" by (simp add: id)
      then have l3: "(if_id n, sip_id ip_address) \<in> set (st_links s3)"
        by (simp add: s4_def detach_other_nodes_simps)
      with n have "n \<in> set (interface_set_of s3 (sip_id ip_address))"
        by (simp add: interface_set_of_def)
      with l4 have "if_node n = node_id node"
        by (auto simp: s4_def detach_other_nodes_simps)
      then show ?thesis ..
    qed simp
  qed
  from 1 2 3 4 5 show ?thesis by blast
qed

theorem sticky_address_detached_from_other_nodes_witness:
  "link_mode static_link = ''static''
   \<and> link_address static_link = Some \<lparr>ipn_version = 4, ipn_value = 1285, ipn_prefixlen = 24\<rparr>
   \<and> update_link bridge_node ((example_row 2 PHYSICAL ''eth1'')\<lparr>if_vlan := Some 5\<rparr>) (Some 5) False
        static_link (shared_store, [], [])
      = Inr (shared_store
               \<lparr>st_links := [(1, 9), (2, 9)],
                st_journal := [Saved StaticIPAddressRow 9, Unlinked 6 9, Saved StaticIPAddressRow 9,
                            Linked 2 9]\<rparr>,
             [],
             [\<lparr>sip_id = 9, sip_alloc_type = STICKY, sip_ip = Some (4, 1285), sip_subnet = Some 7\<rparr>])
   \<and> (\<exists>a \<in> set (st_addresses shared_store).
           sip_ip a = Some (4, 1285) \<and> sip_alloc_type a = STICKY
           \<and> (2 :: nat, sip_id a) \<in> set [(1, 9), (2, 9)]
           \<and> (\<forall>n \<in> set (interface_set_of
                            (shared_store
                               \<lparr>st_links := [(1, 9), (2, 9)],
                                st_journal := [Saved StaticIPAddressRow 9, Unlinked 6 9,
                                               Saved StaticIPAddressRow 9, Linked 2 9]\<rparr>) (sip_id a)).
                 if_node n = 1 \<or> if_id n = 2))"
proof -
  let ?s' = "shared_store
               \<lparr>st_links := [(1, 9), (2, 9)],
                st_journal := [Saved StaticIPAddressRow 9, Unlinked 6 9, Saved StaticIPAddressRow 9,
                            Linked 2 9]\<rparr>"
  let ?nic = "(example_row 2 PHYSICAL ''eth1'')\<lparr>if_vlan := Some 5\<rparr>"
  have h1: "link_mode static_link = ''static''" by (simp add: static_link_def)
  have h2: "link_address static_link = Some \<lparr>ipn_version = 4, ipn_value = 1285, ipn_prefixlen = 24\<rparr>"
    by (simp add: static_link_def)
  have h3: "update_link bridge_node ?nic (Some 5) False static_link (shared_store, [], [])
      = Inr (?s', [],
             [\<lparr>sip_id = 9, sip_alloc_type = STICKY, sip_ip = Some (4, 1285), sip_subnet = Some 7\<rparr>])"
    by code_simp
  have h4: "st_maaslog ?s' = st_maaslog shared_store" by simp
  have e: "network_ip \<lparr>ipn_version = 4, ipn_value = 1285, ipn_prefixlen = 24\<rparr> = (4, 1285)"
    "if_id ?nic = 2" "node_id bridge_node = 1" "st_addresses ?s' = st_addresses shared_store"
    "st_links ?s' = [(1, 9), (2, 9)]"
    by (simp_all add: network_ip_def example_row_def bridge_node_def)
  from sticky_address_detached_from_other_nodes [OF h1 h2 h3 h4]
  have "\<exists>a \<in> set (st_addresses shared_store).
           sip_ip a = Some (4, 1285) \<and> sip_alloc_type a = STICKY
           \<and> (2 :: nat, sip_id a) \<in> set [(1, 9), (2, 9)]
           \<and> (\<forall>n \<in> set (interface_set_of ?s' (sip_id a)). if_node n = 1 \<or> if_id n = 2)"
    unfolding e .
  with h1 h2 h3 show ?thesis by blast
qed

subsection \<open>C2: an interface of unknown type\<close>

lemma sorttop_keys:
  assumes "sorttop data0 = Inr batches"
  shows "fst ` set data0 \<subseteq> set (concat batches)"
proof -
  define data where "data = map (\<lambda>(thing, deps). (thing, filter (\<lambda>d. d \<noteq> thing) deps)) data0"
  define ghosts where
    "ghosts = filter (\<lambda>d. d \<notin> set (map fst data)) (remdups (concat (map snd data)))"
  have "sorttop data0 = skim (data @ map (\<lambda>ghost. (ghost, [])) ghosts)"
    unfolding sorttop_def Let_def ghosts_def data_def by (rule refl)
  with assms have "set (concat batches) = fst ` set (data @ map (\<lambda>ghost. (ghost, [])) ghosts)"
    by (simp add: skim_keys del: set_concat set_append)
  moreover have "fst ` set data = fst ` set data0"
    by (force simp: data_def)
  ultimately show ?thesis by auto
qed

lemma process_order_keys:
  assumes "process_order interfaces = Inr names"
  shows "fst ` set interfaces \<subseteq> set names"
proof -
  from assms obtain batches where
      st: "sorttop (map (\<lambda>(name, config). (name, cfg_parents config)) interfaces) = Inr batches"
      and n: "names = concat (sorted_batches batches)"
    by (auto simp: process_order_def flatten_def split: sum.splits)
  have "fst ` set (map (\<lambda>(name, config). (name, cfg_parents config)) interfaces) = fst ` set interfaces"
    by force
  with sorttop_keys [OF st] show ?thesis
    unfolding n set_concat_sorted_batches by simp
qed

lemma update_interface_unknown_type:
  assumes "cfg_type config \<notin> {''physical'', ''vlan'', ''bond'', ''bridge''}"
  shows "update_interface node name config True hints t = Inl ValueError"
    and "update_interface node name config False hints t = Inr (None, t)"
  using assms by (simp_all add: update_interface_def)

lemma update_interfaces_loop_aborts:
  assumes "map_of interfaces name = Some config"
    and "cfg_type config \<notin> {''physical'', ''vlan'', ''bond'', ''bridge''}"
  shows "name \<in> set names \<Longrightarrow>
    \<exists>e. update_interfaces_loop node interfaces hints True names st = Inl e"
proof (induction names arbitrary: st)
  case Nil
  then show ?case by simp
next
  case (Cons n names)
  obtain s current where st: "st = (s, current)" by (cases st)
  show ?case
  proof (cases "n = name")
    case True
    then show ?thesis
      by (simp add: st assms(1) update_interface_unknown_type(1) [OF assms(2)])
  next
    case False
    with Cons.prems have "name \<in> set names" by simp
    then have IH: "\<And>st. \<exists>e. update_interfaces_loop node interfaces hints True names st = Inl e"
      by (rule Cons.IH)
    show ?thesis
    proof (cases "map_of interfaces n")
      case None
      then show ?thesis by (simp add: st)
    next
      case (Some settings)
      show ?thesis
      proof (cases "update_interface node n settings True hints s")
        case (Inl e)
        with Some show ?thesis by (simp add: st)
      next
        case (Inr r)
        obtain i s1 where r: "r = (i, s1)" by (cases r)
        show ?thesis using Some Inr r IH by (cases i) (simp_all add: st)
      qed
    qed
  qed
qed

text \<open>
  C2, as stated, fails when \<open>create_fabrics\<close> is false: \<open>update_interface\<close> returns
  before it looks at the type of an interface that is not physical ("defer child interface
  creation until fabrics are known"), and the pass succeeds without a write.
\<close>

theorem unknown_type_deferred_counterexample:
  "update_node_interfaces bridge_node [(''wlan0'', example_config ''wifi'' [])] None False
     empty_store = (Inr bridge_node, empty_store)"
  by code_simp

text \<open>
  C2, amended.  With \<open>create_fabrics\<close> true, a desired-state mapping that holds an
  interface whose type is not one of physical, vlan, bond and bridge makes
  \<open>update_node_interfaces\<close> raise, and the committed store is the one before the pass;
  \<open>update_interface\<close> raises \<open>ValueError\<close> on that interface.  With \<open>create_fabrics\<close> false
  the interface is passed over like every interface that is not physical.
\<close>

theorem unknown_type_aborts_pass:
  assumes "(name, config) \<in> set interfaces"
    and "distinct (map fst interfaces)"
    and "cfg_type config \<notin> {''physical'', ''vlan'', ''bond'', ''bridge''}"
  shows "(\<exists>e. update_node_interfaces node interfaces topology_hints True s = (Inl e, s))
     \<and> update_interface node name config True topology_hints t = Inl ValueError
     \<and> update_interface node name config False topology_hints t = Inr (None, t)"
proof -
  have m: "map_of interfaces name = Some config"
    using assms(1,2) by simp
  have "\<exists>e. reconcile node interfaces topology_hints True s = Inl e"
  proof (cases "process_order interfaces")
    case (Inl e)
    then show ?thesis by (simp add: reconcile_def)
  next
    case (Inr names)
    from process_order_keys [OF Inr] assms(1) have "name \<in> set names" by force
    from update_interfaces_loop_aborts [OF m assms(3) this]
    obtain e where "update_interfaces_loop node interfaces topology_hints True names
        (s, map if_id (filter (\<lambda>i. if_node i = node_id node) (st_interfaces s))) = Inl e"
      by blast
    with Inr show ?thesis by (simp add: reconcile_def)
  qed
  then have "\<exists>e. update_node_interfaces node interfaces topology_hints True s = (Inl e, s)"
    by (auto simp: update_node_interfaces_def transactional_def)
  with update_interface_unknown_type [OF assms(3)] show ?thesis by blast
qed

theorem unknown_type_aborts_pass_witness:
  "(''wlan0'', example_config ''wifi'' [])
     \<in> set [(''eth0'', example_config ''physical'' []), (''wlan0'', example_config ''wifi'' [])]
   \<and> distinct (map fst [(''eth0'', example_config ''physical'' []),
                         (''wlan0'', example_config ''wifi'' [])])
   \<and> cfg_type (example_config ''wifi'' []) \<notin> {''physical'', ''vlan'', ''bond'', ''bridge''}
   \<and> update_node_interfaces bridge_node
        [(''eth0'', example_config ''physical'' []), (''wlan0'', example_config ''wifi'' [])]
        None True empty_store = (Inl ValueError, empty_store)
   \<and> (\<exists>e. update_node_interfaces bridge_node
        [(''eth0'', example_config ''physical'' []), (''wlan0'', example_config ''wifi'' [])]
        None True empty_store = (Inl e, empty_store))"
proof -
  have h1: "(''wlan0'', example_config ''wifi'' [])
     \<in> set [(''eth0'', example_config ''physical'' []), (''wlan0'', example_config ''wifi'' [])]"
    by simp
  have h2: "distinct (map fst [(''eth0'', example_config ''physical'' []),
                         (''wlan0'', example_config ''wifi'' [])])"
    by simp
  have h3: "cfg_type (example_config ''wifi'' []) \<notin> {''physical'', ''vlan'', ''bond'', ''bridge''}"
    by (simp add: example_config_def)
  have c: "update_node_interfaces bridge_node
        [(''eth0'', example_config ''physical'' []), (''wlan0'', example_config ''wifi'' [])]
        None True empty_store = (Inl ValueError, empty_store)"
    by code_simp
  from unknown_type_aborts_pass [OF h1 h2 h3, of bridge_node None empty_store] h1 h2 h3 c
  show ?thesis by blast
qed

subsection \<open>C4: a MAC address that moves to another node\<close>













subsection \<open>C7: the VLAN of a bond or bridge and of its parents\<close>






lemma delete_addresses_subnets: "st_subnets (delete_addresses ids s) = st_subnets s"
proof (induction ids arbitrary: s)
  case Nil
  show ?case by (simp add: delete_addresses_def)
next
  case (Cons a ids)
  have "st_subnets (delete_address a s) = st_subnets s"
    by (simp add: delete_address_def record_write_def)
  with Cons.IH [of "delete_address a s"] show ?case by (simp add: delete_addresses_def)
qed
















lemma save_interface_subnets: "st_subnets (save_interface obj s) = st_subnets s"
  by (simp add: save_interface_def record_write_def)







end
